theory Spec2Isabelle
  imports Complex_Main
begin

section \<open>The nonlinear-expression compiler of the SCIP MEX interface\<close>

text \<open>
  This theory embeds \<^verbatim>\<open>addNonlinearCon\<close> of \<^verbatim>\<open>Source/scip/scipnlmex.cpp\<close>
  (the variant for SCIP 8 and later, lines 67 to 877) and the part of \<^verbatim>\<open>mexFunction\<close> of
  \<^verbatim>\<open>Source/scip/scipmex.cpp\<close> that calls it for the constraints and the objective
  (lines 1320 to 1397).

  Conventions of the embedding:
  \<^item> a C \<^verbatim>\<open>double\<close> is a \<^typ>\<open>real\<close>: rounding, infinities and NaN are not modelled;
  \<^item> a C \<^verbatim>\<open>int\<close> or \<^verbatim>\<open>size_t\<close> is an \<^typ>\<open>int\<close> or a \<^typ>\<open>nat\<close>; the counters of the function
    are bounded by the length of the instruction array, so wrap-around is not modelled;
  \<^item> \<^verbatim>\<open>mexErrMsgTxt\<close> does not return: every call is an \<open>Inl\<close> result that ends the run;
  \<^item> a read or write outside an array, and a read of an element never written, is
    undefined behaviour in C: the model ends the run with \<open>Inl (MemoryFault a i)\<close>, naming
    the array and the index;
  \<^item> the calls into the SCIP library that create expressions are the constructors of
    \<open>expr\<close>; they are taken to return \<^verbatim>\<open>SCIP_OKAY\<close>;
  \<^item> the variable array \<^verbatim>\<open>vars\<close> holds the handles of the \<open>nvars\<close> variables of the problem in
    order, so the handle \<^verbatim>\<open>vars[k]\<close> is the index \<open>k\<close>.
\<close>

subsection \<open>Opcodes and constants\<close>

text \<open>
  \<^verbatim>\<open>enum {EMPTY=-2,READ,NUM,VAR,EXP,MUL,DIV,ADD,SUB,SQUARE,SQRT,POW,EXPNT,LOG,SIN,COS,TAN,MIN,MAX,ABS,SIGN};\<close>
  \<^verbatim>\<open>const int OTHER = 98, EXIT = 99;\<close>
  (\<open>MIN_op\<close> and \<open>MAX_op\<close> are \<^verbatim>\<open>MIN\<close> and \<^verbatim>\<open>MAX\<close>.)
\<close>

definition EMPTY :: int where "EMPTY = -2"
definition READ :: int where "READ = -1"
definition NUM :: int where "NUM = 0"
definition VAR :: int where "VAR = 1"
definition EXP :: int where "EXP = 2"
definition MUL :: int where "MUL = 3"
definition DIV :: int where "DIV = 4"
definition ADD :: int where "ADD = 5"
definition SUB :: int where "SUB = 6"
definition SQUARE :: int where "SQUARE = 7"
definition SQRT :: int where "SQRT = 8"
definition POW :: int where "POW = 9"
definition EXPNT :: int where "EXPNT = 10"
definition LOG :: int where "LOG = 11"
definition SIN :: int where "SIN = 12"
definition COS :: int where "COS = 13"
definition TAN :: int where "TAN = 14"
definition MIN_op :: int where "MIN_op = 15"
definition MAX_op :: int where "MAX_op = 16"
definition ABS :: int where "ABS = 17"
definition SIGN :: int where "SIGN = 18"
definition OTHER :: int where "OTHER = 98"
definition EXIT :: int where "EXIT = 99"

text \<open>\<^verbatim>\<open>#define MAX_DEPTH 512\<close>\<close>

definition MAX_DEPTH :: int where "MAX_DEPTH = 512"

text \<open>The cast \<^verbatim>\<open>(int)x\<close> of a double truncates towards zero.\<close>

definition c_int :: "real \<Rightarrow> int" where
  "c_int x = (if 0 \<le> x then \<lfloor>x\<rfloor> else \<lceil>x\<rceil>)"

subsection \<open>Errors\<close>

text \<open>
  One constructor for each message passed to \<^verbatim>\<open>mexErrMsgTxt\<close> in \<^verbatim>\<open>addNonlinearCon\<close>, one for
  the \<^verbatim>\<open>assert\<close> on the variable indices, one for undefined behaviour, and one for the
  failure of the evaluation.
\<close>

datatype error =
    DepthExceededExpr
  | DepthExceededVar
  | InstructionOrder
  | NoWaitingVariable
  | BadWaitingVariable
  | NoWaitingExpression
  | UnknownProcessEntry
  | MissingOperand
  | VariableExponent
  | OperatorNotImplemented
  | DivisionByConstantZero
  | BadWaitingExpression
  | UnexpectedCombineOperator
  | GroupingNotImplemented
  | FunctionWithoutOperand
  | NegativeVariableIndex
  | UnknownFunctionArgument
  | MinMaxNotImplemented
  | TanNotImplemented
  | SignNotImplemented
  | UnknownInstruction
  | AssertionFailed
  | MemoryFault string int
  | EvalDivisionByZero

fun message :: "error \<Rightarrow> string" where
  "message DepthExceededExpr = ''Maximum function depth exceeded [expression list].''"
| "message DepthExceededVar = ''Maximum function depth exceeded [variable list].''"
| "message InstructionOrder = ''Error in order of instructions.''"
| "message NoWaitingVariable = ''Error reading variable to process - Process List indicates variable to process, but not present in variable list.''"
| "message BadWaitingVariable = ''Error processing waiting variable, found empty or negative index.''"
| "message NoWaitingExpression = ''Error reading expression to process - Process List indicates expression to process, but not present in expression list.''"
| "message UnknownProcessEntry = ''Unknown entry in process list.''"
| "message MissingOperand = ''Error attempting to create nonlinear expression, operator doesn't have two operands.''"
| "message VariableExponent = ''You cannot use POWER with the exponent as a variable. For x^y use exp(y*log(x)).''"
| "message OperatorNotImplemented = ''Operator not implemented yet''"
| "message DivisionByConstantZero = ''Division by constant 0.''"
| "message BadWaitingExpression = ''Error processing waiting expression, found empty index.''"
| "message UnexpectedCombineOperator = ''Unexpected operator for combining expressions, currently only +, -, * and / supported''"
| "message GroupingNotImplemented = ''Grouping of arguments not implemented yet.''"
| "message FunctionWithoutOperand = ''Error attempting to create nonlinear expression, function doesn't have an operand.''"
| "message NegativeVariableIndex = ''Variable index is negative when creating fcn(var).''"
| "message UnknownFunctionArgument = ''Unknown argument to operate function on, only options are VAR (variable) or EXP (expression).''"
| "message MinMaxNotImplemented = ''Max and Min not currently implemented (in this interface and SCIP).''"
| "message TanNotImplemented = ''Tangent function not currently implemented (in SCIP).''"
| "message SignNotImplemented = ''Sign not currently implemented (in SCIP).''"
| "message UnknownInstruction = ''Unknown (or out of order) instruction.''"
| "message AssertionFailed = ''assert( 0 <= varind[i] && varind[i] < nvars )''"
| "message (MemoryFault a i) = a"
| "message EvalDivisionByZero = ''Error evaluating expression.''"

definition bind_err :: "error + 'a \<Rightarrow> ('a \<Rightarrow> error + 'b) \<Rightarrow> error + 'b" where
  "bind_err m f = (case m of Inl e \<Rightarrow> Inl e | Inr x \<Rightarrow> f x)"

text \<open>Array accesses with the bounds of the C array.\<close>

definition load :: "string \<Rightarrow> 'a list \<Rightarrow> int \<Rightarrow> error + 'a" where
  "load a xs i = (if 0 \<le> i \<and> i < int (length xs) then Inr (xs ! nat i) else Inl (MemoryFault a i))"

definition store :: "string \<Rightarrow> 'a list \<Rightarrow> int \<Rightarrow> 'a \<Rightarrow> error + 'a list" where
  "store a xs i v = (if 0 \<le> i \<and> i < int (length xs) then Inr (xs[nat i := v]) else Inl (MemoryFault a i))"

subsection \<open>Expressions\<close>

text \<open>
  The expression handles of SCIP, by the call that creates them:
  \<^verbatim>\<open>SCIPcreateExprVar\<close>, \<^verbatim>\<open>SCIPcreateExprValue\<close>, \<^verbatim>\<open>SCIPcreateExprSum\<close> (children,
  coefficients, constant), \<^verbatim>\<open>SCIPcreateExprProduct\<close> (children, coefficient),
  \<^verbatim>\<open>SCIPcreateExprPow\<close> (child, exponent), and the unary functions.
\<close>

datatype expr =
    ExprVar int
  | ExprValue real
  | ExprSum "expr list" "real list" real
  | ExprProduct "expr list" real
  | ExprPow expr real
  | ExprExp expr
  | ExprLog expr
  | ExprAbs expr
  | ExprSin expr
  | ExprCos expr

subsection \<open>The state of the builder\<close>

text \<open>
  The local variables of \<^verbatim>\<open>addNonlinearCon\<close> that the main loop reads and writes, under
  their names in the source; \<open>args0\<close> and \<open>args1\<close> are \<^verbatim>\<open>args[0]\<close> and \<^verbatim>\<open>args[1]\<close>, \<open>exparr\<close> is
  the array \<^verbatim>\<open>exp\<close> (an element never written is \<open>None\<close>), and \<open>instr\<close> is the caller's
  instruction array, which the loop writes to.
\<close>

record nlstate =
  instr :: "real list"
  state :: int
  args0 :: int
  args1 :: int
  savexp :: int
  savexplst :: "int list"
  psavexplst :: int
  savvarlst :: "int list"
  psavvarlst :: int
  savprolst :: "int list"
  psavprolst :: int
  varcnt :: int
  vari :: int
  expno :: int
  num :: real
  exparr :: "expr option list"

text \<open>
  Saving the last expression for later (lines 245 to 252, 287 to 294 and 689 to 696):
  \<^verbatim>\<open>if ( psavexplst >= MAX_DEPTH ) mexErrMsgTxt(...); savexplst[++psavexplst] = expno-1; savprolst[++psavprolst] = EXP;\<close>
\<close>

definition push_exp :: "nlstate \<Rightarrow> error + nlstate" where
  "push_exp s =
     (if psavexplst s \<ge> MAX_DEPTH then Inl DepthExceededExpr
      else bind_err (store ''savexplst'' (savexplst s) (psavexplst s + 1) (expno s - 1)) (\<lambda>l.
           bind_err (store ''savprolst'' (savprolst s) (psavprolst s + 1) EXP) (\<lambda>p.
           Inr (s\<lparr>savexplst := l, psavexplst := psavexplst s + 1,
                  savprolst := p, psavprolst := psavprolst s + 1\<rparr>))))"

text \<open>
  Saving a variable for later (lines 260 to 267, 300 to 310 and 707 to 714), \<open>v\<close> being the
  saved variable number:
  \<^verbatim>\<open>if ( psavvarlst >= MAX_DEPTH ) mexErrMsgTxt(...); savvarlst[++psavvarlst] = v; savprolst[++psavprolst] = VAR;\<close>
\<close>

definition push_var :: "int \<Rightarrow> nlstate \<Rightarrow> error + nlstate" where
  "push_var v s =
     (if psavvarlst s \<ge> MAX_DEPTH then Inl DepthExceededVar
      else bind_err (store ''savvarlst'' (savvarlst s) (psavvarlst s + 1) v) (\<lambda>l.
           bind_err (store ''savprolst'' (savprolst s) (psavprolst s + 1) VAR) (\<lambda>p.
           Inr (s\<lparr>savvarlst := l, psavvarlst := psavvarlst s + 1,
                  savprolst := p, psavprolst := psavprolst s + 1\<rparr>))))"

text \<open>The case \<^verbatim>\<open>NUM\<close> of the main loop (lines 236 to 275).\<close>

definition step_num :: "nat \<Rightarrow> nlstate \<Rightarrow> error + nlstate" where
  "step_num i s0 =
     (let s = s0\<lparr>num := instr s0 ! i, state := READ\<rparr> in
      if args0 s = EMPTY then Inr (s\<lparr>args0 := NUM\<rparr>)
      else if args1 s = EMPTY then Inr (s\<lparr>args1 := NUM\<rparr>)
      else if args0 s = EXP then
        bind_err (push_exp s) (\<lambda>t. Inr (t\<lparr>args0 := args1 t, args1 := NUM\<rparr>))
      else if args0 s = VAR then
        bind_err (push_var (varcnt s - 1) s) (\<lambda>t. Inr (t\<lparr>args0 := args1 t, args1 := NUM\<rparr>))
      else Inl InstructionOrder)"

text \<open>
  The case \<^verbatim>\<open>VAR\<close> of the main loop (lines 277 to 318). The saved variable number depends
  on \<^verbatim>\<open>instr[i-3]\<close> and \<^verbatim>\<open>instr[i-5]\<close>; \<open>i\<close> is a \<^verbatim>\<open>size_t\<close>, so below 3 (or 5) the index wraps
  around and the read is outside the array.
\<close>

definition saved_var_number :: "nat \<Rightarrow> nlstate \<Rightarrow> error + int" where
  "saved_var_number i s =
     (if i < 3 then Inl (MemoryFault ''instr'' (int i - 3))
      else if instr s ! (i - 3) = real_of_int VAR then
        (if i < 5 then Inl (MemoryFault ''instr'' (int i - 5))
         else if instr s ! (i - 5) = real_of_int VAR then Inr (varcnt s - 2)
         else Inr (varcnt s - 1))
      else Inr (varcnt s - 1))"

definition step_var :: "nat \<Rightarrow> nlstate \<Rightarrow> error + nlstate" where
  "step_var i s0 =
     (let s = s0\<lparr>varcnt := varcnt s0 + 1, state := READ\<rparr> in
      if args0 s = EMPTY then Inr (s\<lparr>args0 := VAR\<rparr>)
      else if args1 s = EMPTY then Inr (s\<lparr>args1 := VAR\<rparr>)
      else if args0 s = EXP then
        bind_err (push_exp s) (\<lambda>t. Inr (t\<lparr>args0 := args1 t, args1 := VAR\<rparr>))
      else if args0 s = VAR then
        (if psavvarlst s \<ge> MAX_DEPTH then Inl DepthExceededVar
         else bind_err (saved_var_number i s) (\<lambda>v.
              bind_err (push_var v s) (\<lambda>t. Inr (t\<lparr>args0 := args1 t, args1 := VAR\<rparr>))))
      else Inl InstructionOrder)"

text \<open>Reading \<^verbatim>\<open>expvars[k]\<close> and \<^verbatim>\<open>exp[k]\<close>, and writing the new node to \<^verbatim>\<open>exp[expno]\<close>.\<close>

definition get_var :: "expr list \<Rightarrow> int \<Rightarrow> error + expr" where
  "get_var expvars k = load ''expvars'' expvars k"

definition get_exp :: "nlstate \<Rightarrow> int \<Rightarrow> error + expr" where
  "get_exp s k =
     bind_err (load ''exp'' (exparr s) k) (\<lambda>c.
       case c of None \<Rightarrow> Inl (MemoryFault ''exp'' k) | Some e \<Rightarrow> Inr e)"

definition set_exp :: "expr \<Rightarrow> nlstate \<Rightarrow> error + nlstate" where
  "set_exp e s =
     bind_err (store ''exp'' (exparr s) (expno s) (Some e)) (\<lambda>a. Inr (s\<lparr>exparr := a\<rparr>))"

subsection \<open>Operators with two operands\<close>

text \<open>
  Lines 327 to 363: \<^verbatim>\<open>vari = varcnt\<close>, then, when \<^verbatim>\<open>args[1]\<close> is empty and the process list
  is not, the last saved variable or expression becomes the second operand. For a saved
  variable the slot \<^verbatim>\<open>instr[i]\<close> of the caller's array is overwritten with 1.
\<close>

definition pop_waiting :: "nat \<Rightarrow> nlstate \<Rightarrow> error + nlstate" where
  "pop_waiting i s0 =
     (let s = s0\<lparr>vari := varcnt s0\<rparr> in
      if args1 s = EMPTY \<and> psavprolst s \<ge> 0 then
        bind_err (load ''savprolst'' (savprolst s) (psavprolst s)) (\<lambda>toProcess.
          let s1 = s\<lparr>psavprolst := psavprolst s - 1\<rparr> in
          if toProcess = VAR then
            (if psavvarlst s1 < 0 then Inl NoWaitingVariable
             else bind_err (load ''savvarlst'' (savvarlst s1) (psavvarlst s1)) (\<lambda>v.
               if v = EMPTY \<or> v < 0 then Inl BadWaitingVariable
               else Inr (s1\<lparr>vari := v, args1 := VAR, instr := (instr s1)[i := 1],
                             psavvarlst := psavvarlst s1 - 1\<rparr>)))
          else if toProcess = EXP then
            (if psavexplst s1 < 0 then Inl NoWaitingExpression
             else Inr (s1\<lparr>args1 := EXP\<rparr>))
          else Inl UnknownProcessEntry)
      else Inr s)"

text \<open>\<^verbatim>\<open>NUM (op) VAR\<close>, lines 370 to 403.\<close>

definition num_op_var :: "expr list \<Rightarrow> nlstate \<Rightarrow> error + expr" where
  "num_op_var expvars s =
     (if state s = ADD then
        bind_err (get_var expvars (vari s)) (\<lambda>v. Inr (ExprSum [v] [1] (num s)))
      else if state s = SUB then
        bind_err (get_var expvars (vari s)) (\<lambda>v. Inr (ExprSum [v] [-1] (num s)))
      else if state s = MUL then
        bind_err (get_var expvars (vari s)) (\<lambda>v. Inr (ExprSum [v] [num s] 0))
      else if state s = DIV then
        bind_err (get_var expvars (vari s)) (\<lambda>v. Inr (ExprSum [ExprPow v (-1)] [num s] 0))
      else if state s = POW then Inl VariableExponent
      else Inl OperatorNotImplemented)"

text \<open>\<^verbatim>\<open>VAR (op) NUM\<close>, lines 405 to 438.\<close>

definition var_op_num :: "expr list \<Rightarrow> nlstate \<Rightarrow> error + expr" where
  "var_op_num expvars s =
     (if state s = ADD then
        bind_err (get_var expvars (vari s)) (\<lambda>v. Inr (ExprSum [v] [1] (num s)))
      else if state s = SUB then
        bind_err (get_var expvars (vari s)) (\<lambda>v. Inr (ExprSum [v] [1] (- num s)))
      else if state s = MUL then
        bind_err (get_var expvars (vari s)) (\<lambda>v. Inr (ExprSum [v] [num s] 0))
      else if state s = DIV then
        (if num s = 0 then Inl DivisionByConstantZero
         else bind_err (get_var expvars (vari s)) (\<lambda>v. Inr (ExprSum [v] [1 / num s] 0)))
      else if state s = POW then
        bind_err (get_var expvars (vari s)) (\<lambda>v. Inr (ExprPow v (num s)))
      else Inl OperatorNotImplemented)"

text \<open>\<^verbatim>\<open>VAR (op) VAR\<close>, lines 440 to 478; the children are \<^verbatim>\<open>expvars[vari-1]\<close> and \<^verbatim>\<open>expvars[vari]\<close>.\<close>

definition var_op_var :: "expr list \<Rightarrow> nlstate \<Rightarrow> error + expr" where
  "var_op_var expvars s =
     (if state s = ADD then
        bind_err (get_var expvars (vari s - 1)) (\<lambda>v0.
        bind_err (get_var expvars (vari s)) (\<lambda>v1. Inr (ExprSum [v0, v1] [1, 1] 0)))
      else if state s = SUB then
        bind_err (get_var expvars (vari s - 1)) (\<lambda>v0.
        bind_err (get_var expvars (vari s)) (\<lambda>v1. Inr (ExprSum [v0, v1] [1, -1] 0)))
      else if state s = MUL then
        bind_err (get_var expvars (vari s - 1)) (\<lambda>v0.
        bind_err (get_var expvars (vari s)) (\<lambda>v1. Inr (ExprProduct [v0, v1] 1)))
      else if state s = DIV then
        bind_err (get_var expvars (vari s - 1)) (\<lambda>v0.
        bind_err (get_var expvars (vari s)) (\<lambda>v1. Inr (ExprProduct [v0, ExprPow v1 (-1)] 1)))
      else if state s = POW then Inl VariableExponent
      else Inl OperatorNotImplemented)"

text \<open>
  \<^verbatim>\<open>EXP (op) NUM\<close>, lines 480 to 531; \<^verbatim>\<open>instr[i] == 1\<close> is the flag for flipped operands.
\<close>

definition exp_op_num :: "nat \<Rightarrow> nlstate \<Rightarrow> error + expr" where
  "exp_op_num i s =
     (if state s = ADD then
        bind_err (get_exp s (expno s - 1)) (\<lambda>e. Inr (ExprSum [e] [1] (num s)))
      else if state s = SUB then
        (if instr s ! i = 1
         then bind_err (get_exp s (expno s - 1)) (\<lambda>e. Inr (ExprSum [e] [-1] (num s)))
         else bind_err (get_exp s (expno s - 1)) (\<lambda>e. Inr (ExprSum [e] [1] (- num s))))
      else if state s = MUL then
        bind_err (get_exp s (expno s - 1)) (\<lambda>e. Inr (ExprSum [e] [num s] 0))
      else if state s = DIV then
        (if instr s ! i = 1
         then bind_err (get_exp s (expno s - 1)) (\<lambda>e. Inr (ExprSum [ExprPow e (-1)] [num s] 0))
         else if num s = 0 then Inl DivisionByConstantZero
         else bind_err (get_exp s (expno s - 1)) (\<lambda>e. Inr (ExprSum [e] [1 / num s] 0)))
      else if state s = POW then
        bind_err (get_exp s (expno s - 1)) (\<lambda>e. Inr (ExprPow e (num s)))
      else Inl OperatorNotImplemented)"

text \<open>
  \<^verbatim>\<open>EXP (op) VAR\<close>, lines 533 to 592; \<^verbatim>\<open>exp[expno-1]\<close> and \<^verbatim>\<open>expvars[vari]\<close> are read before the
  operator is looked at.
\<close>

definition exp_op_var :: "expr list \<Rightarrow> nat \<Rightarrow> nlstate \<Rightarrow> error + expr" where
  "exp_op_var expvars i s =
     bind_err (get_exp s (expno s - 1)) (\<lambda>e.
     bind_err (get_var expvars (vari s)) (\<lambda>v.
       if state s = ADD then Inr (ExprSum [e, v] [1, 1] 0)
       else if state s = SUB then
         (if instr s ! i = 1 then Inr (ExprSum [e, v] [-1, 1] 0)
          else Inr (ExprSum [e, v] [1, -1] 0))
       else if state s = MUL then Inr (ExprProduct [e, v] 1)
       else if state s = DIV then
         (if instr s ! i = 1 then Inr (ExprProduct [ExprPow e (-1), v] 1)
          else Inr (ExprProduct [ExprPow v (-1), e] 1))
       else if state s = POW then Inl VariableExponent
       else Inl OperatorNotImplemented))"

text \<open>
  \<^verbatim>\<open>EXP (op) EXP\<close>, lines 594 to 656; the first operand is the expression saved last,
  \<^verbatim>\<open>exp[savexplst[psavexplst]]\<close>. The result is the new node and the value of \<^verbatim>\<open>savexp\<close>.
\<close>

definition exp_op_exp :: "nat \<Rightarrow> nlstate \<Rightarrow> error + (expr \<times> int)" where
  "exp_op_exp i s =
     bind_err (load ''savexplst'' (savexplst s) (psavexplst s)) (\<lambda>sv.
       if sv = EMPTY \<or> sv < 0 then Inl BadWaitingExpression
       else
         bind_err (get_exp s sv) (\<lambda>e0.
         bind_err (get_exp s (expno s - 1)) (\<lambda>e1.
           if state s = ADD then Inr (ExprSum [e0, e1] [1, 1] 0, sv)
           else if state s = SUB then
             (if instr s ! i = 1 then Inr (ExprSum [e0, e1] [-1, 1] 0, sv)
              else Inr (ExprSum [e0, e1] [1, -1] 0, sv))
           else if state s = MUL then Inr (ExprProduct [e0, e1] 1, sv)
           else if state s = DIV then
             (if instr s ! i = 1 then Inr (ExprProduct [ExprPow e0 (-1), e1] 1, sv)
              else Inr (ExprProduct [ExprPow e1 (-1), e0] 1, sv))
           else Inl UnexpectedCombineOperator)))"

text \<open>
  Lines 365 to 658: both operands must be there, then the pair of their kinds selects
  the case; a pair with no case is the error of line 658. Each case stores its node in
  \<^verbatim>\<open>exp[expno]\<close> and leaves \<^verbatim>\<open>args = {EXP, EMPTY}\<close>.
\<close>

definition dispatch_binary :: "expr list \<Rightarrow> nat \<Rightarrow> nlstate \<Rightarrow> error + nlstate" where
  "dispatch_binary expvars i s =
     (if args0 s = EMPTY \<or> args1 s = EMPTY then Inl MissingOperand
      else if args0 s = NUM \<and> args1 s = VAR then
        bind_err (num_op_var expvars s) (\<lambda>e.
        bind_err (set_exp e s) (\<lambda>t. Inr (t\<lparr>args0 := EXP, args1 := EMPTY\<rparr>)))
      else if args0 s = VAR \<and> args1 s = NUM then
        bind_err (var_op_num expvars s) (\<lambda>e.
        bind_err (set_exp e s) (\<lambda>t. Inr (t\<lparr>args0 := EXP, args1 := EMPTY\<rparr>)))
      else if args0 s = VAR \<and> args1 s = VAR then
        bind_err (var_op_var expvars s) (\<lambda>e.
        bind_err (set_exp e s) (\<lambda>t. Inr (t\<lparr>args0 := EXP, args1 := EMPTY\<rparr>)))
      else if args0 s = EXP \<and> args1 s = NUM then
        bind_err (exp_op_num i s) (\<lambda>e.
        bind_err (set_exp e s) (\<lambda>t. Inr (t\<lparr>args0 := EXP, args1 := EMPTY\<rparr>)))
      else if args0 s = EXP \<and> args1 s = VAR then
        bind_err (exp_op_var expvars i s) (\<lambda>e.
        bind_err (set_exp e s) (\<lambda>t. Inr (t\<lparr>args0 := EXP, args1 := EMPTY\<rparr>)))
      else if args0 s = EXP \<and> args1 s = EXP then
        bind_err (exp_op_exp i s) (\<lambda>(e, sv).
        bind_err (set_exp e (s\<lparr>savexp := sv\<rparr>)) (\<lambda>t.
          Inr (t\<lparr>args0 := EXP, args1 := EMPTY, psavexplst := psavexplst t - 1\<rparr>)))
      else Inl GroupingNotImplemented)"

text \<open>
  Lines 660 to 666 (and 796 to 802), after an operator or function:
  \<^verbatim>\<open>if ( i == (no_instr-1) ) state = EXIT; else { state = READ; expno++; }\<close>
\<close>

definition finish_op :: "nat \<Rightarrow> nat \<Rightarrow> nlstate \<Rightarrow> nlstate" where
  "finish_op no_instr i s =
     (if int i = int no_instr - 1 then s\<lparr>state := EXIT\<rparr>
      else s\<lparr>state := READ, expno := expno s + 1\<rparr>)"

definition step_binary :: "expr list \<Rightarrow> nat \<Rightarrow> nat \<Rightarrow> nlstate \<Rightarrow> error + nlstate" where
  "step_binary expvars no_instr i s =
     bind_err (pop_waiting i s) (\<lambda>s1.
     bind_err (dispatch_binary expvars i s1) (\<lambda>s2.
       Inr (finish_op no_instr i s2)))"

subsection \<open>Functions with one operand\<close>

text \<open>
  \<^verbatim>\<open>FCN ( VAR )\<close>, lines 720 to 757, and \<^verbatim>\<open>FCN ( EXP )\<close>, lines 759 to 792: the two inner
  switches have the same six cases. \<^verbatim>\<open>SQUARE\<close> is among the case labels of line 670 but has no
  case in the inner switches, so it ends in their \<^verbatim>\<open>default\<close>.
\<close>

definition fcn_node :: "int \<Rightarrow> expr \<Rightarrow> error + expr" where
  "fcn_node st e =
     (if st = SQRT then Inr (ExprPow e 0.5)
      else if st = EXPNT then Inr (ExprExp e)
      else if st = LOG then Inr (ExprLog e)
      else if st = ABS then Inr (ExprAbs e)
      else if st = SIN then Inr (ExprSin e)
      else if st = COS then Inr (ExprCos e)
      else Inl OperatorNotImplemented)"

text \<open>
  Lines 678 to 802. Before the function is applied, a pending expression next to a
  variable operand, or a pending variable next to a variable operand, is saved for later.
\<close>

definition step_unary :: "expr list \<Rightarrow> nat \<Rightarrow> nat \<Rightarrow> nlstate \<Rightarrow> error + nlstate" where
  "step_unary expvars no_instr i s0 =
     (let s = s0\<lparr>vari := varcnt s0\<rparr> in
      if args0 s = EMPTY then Inl FunctionWithoutOperand
      else
        bind_err (if args0 s = EXP \<and> args1 s = VAR
                  then bind_err (push_exp s) (\<lambda>t. Inr (t\<lparr>args0 := VAR, args1 := EMPTY\<rparr>))
                  else Inr s) (\<lambda>s1.
        bind_err (if args0 s1 = VAR \<and> args1 s1 = VAR
                  then push_var (varcnt s1 - 1) s1
                  else Inr s1) (\<lambda>s2.
        bind_err (if args0 s2 = VAR then
                    (if vari s2 < 0 then Inl NegativeVariableIndex
                     else if state s2 \<in> {SQRT, EXPNT, LOG, ABS, SIN, COS} then
                       bind_err (get_var expvars (vari s2)) (\<lambda>v.
                       bind_err (fcn_node (state s2) v) (\<lambda>e.
                       bind_err (set_exp e s2) (\<lambda>t. Inr (t\<lparr>args0 := EXP, args1 := EMPTY\<rparr>))))
                     else Inl OperatorNotImplemented)
                  else if args0 s2 = EXP then
                    (if state s2 \<in> {SQRT, EXPNT, LOG, ABS, SIN, COS} then
                       bind_err (get_exp s2 (expno s2 - 1)) (\<lambda>x.
                       bind_err (fcn_node (state s2) x) (\<lambda>e.
                       bind_err (set_exp e s2) (\<lambda>t. Inr (t\<lparr>args0 := EXP, args1 := EMPTY\<rparr>))))
                     else Inl OperatorNotImplemented)
                  else Inl UnknownFunctionArgument) (\<lambda>s3.
          Inr (finish_op no_instr i s3)))))"

subsection \<open>The main loop\<close>

text \<open>One iteration of the loop of lines 224 to 822: the \<^verbatim>\<open>switch(state)\<close> at index \<open>i\<close>.\<close>

definition step :: "expr list \<Rightarrow> nat \<Rightarrow> nat \<Rightarrow> nlstate \<Rightarrow> error + nlstate" where
  "step expvars no_instr i s =
     (if state s = READ then Inr (s\<lparr>state := c_int (instr s ! i)\<rparr>)
      else if state s = NUM then step_num i s
      else if state s = VAR then step_var i s
      else if state s \<in> {MUL, DIV, ADD, SUB, POW} then step_binary expvars no_instr i s
      else if state s \<in> {SQUARE, SQRT, EXPNT, LOG, ABS, SIN, COS} then step_unary expvars no_instr i s
      else if state s = MIN_op \<or> state s = MAX_op then Inl MinMaxNotImplemented
      else if state s = TAN then Inl TanNotImplemented
      else if state s = SIGN then Inl SignNotImplemented
      else if state s = EXIT then Inr s
      else Inl UnknownInstruction)"

text \<open>The loop over the indices \<open>i\<close>; the first error ends it.\<close>

fun run :: "expr list \<Rightarrow> nat \<Rightarrow> nat list \<Rightarrow> nlstate \<Rightarrow> error + nlstate" where
  "run expvars no_instr [] s = Inr s"
| "run expvars no_instr (i # is) s =
     (case step expvars no_instr i s of
        Inl e \<Rightarrow> Inl e
      | Inr t \<Rightarrow> run expvars no_instr is t)"

subsection \<open>The pre-scan of the instruction array\<close>

text \<open>
  Lines 125 to 142: the states \<^verbatim>\<open>READ\<close> and \<^verbatim>\<open>OTHER\<close> alternate; in state \<^verbatim>\<open>READ\<close> an element
  above \<^verbatim>\<open>EXP\<close> counts as an operation and an element equal to \<^verbatim>\<open>VAR\<close> as a variable. The
  result is \<open>(no_ops, no_var)\<close>.
\<close>

fun count_pass :: "int \<Rightarrow> real list \<Rightarrow> nat \<Rightarrow> nat \<Rightarrow> nat \<times> nat" where
  "count_pass st [] no_ops no_var = (no_ops, no_var)"
| "count_pass st (x # xs) no_ops no_var =
     (if st = READ then
        count_pass OTHER xs (if x > real_of_int EXP then no_ops + 1 else no_ops)
                            (if x = real_of_int VAR then no_var + 1 else no_var)
      else if st = OTHER then count_pass READ xs no_ops no_var
      else count_pass st xs no_ops no_var)"

text \<open>
  Lines 148 to 170: the element after each \<^verbatim>\<open>VAR\<close> read in state \<^verbatim>\<open>READ\<close> is stored in
  \<^verbatim>\<open>varind[j++]\<close>; \<^verbatim>\<open>varind\<close> comes from \<^verbatim>\<open>mxCalloc\<close>, filled with zeros.
\<close>

fun index_pass :: "int \<Rightarrow> real list \<Rightarrow> nat \<Rightarrow> int list \<Rightarrow> error + int list" where
  "index_pass st [] j varind = Inr varind"
| "index_pass st (x # xs) j varind =
     (if st = READ then
        (if x = real_of_int VAR then index_pass VAR xs j varind
         else index_pass OTHER xs j varind)
      else if st = VAR then
        bind_err (store ''varind'' varind (int j) (c_int x)) (\<lambda>v. index_pass READ xs (j + 1) v)
      else if st = OTHER then index_pass READ xs j varind
      else index_pass st xs j varind)"

text \<open>
  Lines 189 to 193: one variable expression for each entry of \<^verbatim>\<open>varind\<close>, under
  \<^verbatim>\<open>assert( 0 <= varind[i] && varind[i] < nvars )\<close>. An index outside the variables ends the
  call: by the assertion, or, where assertions are compiled out, by the read of
  \<^verbatim>\<open>vars[varind[i]]\<close> outside the array; the model has the one result \<open>AssertionFailed\<close> for it.
\<close>

fun create_expvars :: "nat \<Rightarrow> int list \<Rightarrow> error + expr list" where
  "create_expvars nv [] = Inr []"
| "create_expvars nv (k # ks) =
     (if 0 \<le> k \<and> k < int nv
      then bind_err (create_expvars nv ks) (\<lambda>es. Inr (ExprVar k # es))
      else Inl AssertionFailed)"

text \<open>
  The decoding done before the main loop (lines 123 to 193): the counts, the variable
  indices and the variable expressions.
\<close>

record prescan =
  no_ops :: nat
  no_var :: nat
  varind :: "int list"
  expvars :: "expr list"

definition decode :: "nat \<Rightarrow> real list \<Rightarrow> error + prescan" where
  "decode nv ins =
     (let (ops, vs) = count_pass READ ins 0 0 in
      bind_err (index_pass READ ins 0 (replicate vs 0)) (\<lambda>vi.
      bind_err (create_expvars nv vi) (\<lambda>ev.
        Inr \<lparr>no_ops = ops, no_var = vs, varind = vi, expvars = ev\<rparr>)))"

subsection \<open>Evaluation of an expression\<close>

text \<open>
  Modelled from the spec: the evaluation of an expression at a point, \<^verbatim>\<open>SCIPevalExpr\<close> of
  the SCIP library, is not part of the repository. Section 4.3 of the specification
  describes it: a post-order walk, a constant gives its value, a variable gives
  \<open>point[index]\<close>, an operator applies its numeric function to the evaluated children, and
  a division by exactly zero fails at evaluation time. A sum is its constant plus the
  weighted children, a product its coefficient times the children; a power with a
  negative exponent is the division.
\<close>

definition real_pow :: "real \<Rightarrow> real \<Rightarrow> real" where
  "real_pow x p =
     (if p = of_int \<lfloor>p\<rfloor>
      then (if 0 \<le> p then x ^ nat \<lfloor>p\<rfloor> else inverse (x ^ nat (- \<lfloor>p\<rfloor>)))
      else x powr p)"

fun weighted_sum :: "real list \<Rightarrow> real list \<Rightarrow> real" where
  "weighted_sum (c # cs) (x # xs) = c * x + weighted_sum cs xs"
| "weighted_sum _ _ = 0"

fun evalExpr :: "real list \<Rightarrow> expr \<Rightarrow> error + real"
  and evalChildren :: "real list \<Rightarrow> expr list \<Rightarrow> error + real list" where
  "evalExpr point (ExprVar k) = load ''xval'' point k"
| "evalExpr point (ExprValue c) = Inr c"
| "evalExpr point (ExprSum es cs c) =
     bind_err (evalChildren point es) (\<lambda>xs. Inr (c + weighted_sum cs xs))"
| "evalExpr point (ExprProduct es c) =
     bind_err (evalChildren point es) (\<lambda>xs. Inr (c * prod_list xs))"
| "evalExpr point (ExprPow e p) =
     bind_err (evalExpr point e) (\<lambda>x.
       if x = 0 \<and> p < 0 then Inl EvalDivisionByZero else Inr (real_pow x p))"
| "evalExpr point (ExprExp e) = bind_err (evalExpr point e) (\<lambda>x. Inr (exp x))"
| "evalExpr point (ExprLog e) = bind_err (evalExpr point e) (\<lambda>x. Inr (ln x))"
| "evalExpr point (ExprAbs e) = bind_err (evalExpr point e) (\<lambda>x. Inr \<bar>x\<bar>)"
| "evalExpr point (ExprSin e) = bind_err (evalExpr point e) (\<lambda>x. Inr (sin x))"
| "evalExpr point (ExprCos e) = bind_err (evalExpr point e) (\<lambda>x. Inr (cos x))"
| "evalChildren point [] = Inr []"
| "evalChildren point (e # es) =
     bind_err (evalExpr point e) (\<lambda>x.
     bind_err (evalChildren point es) (\<lambda>xs. Inr (x # xs)))"

subsection \<open>The problem and the compile call\<close>

text \<open>
  What \<^verbatim>\<open>addNonlinearCon\<close> reads and changes of the SCIP problem: the number of variables
  (\<^verbatim>\<open>SCIPgetNVars\<close>), the feasibility tolerance, and the constraints added so far. A
  nonlinear constraint (\<^verbatim>\<open>SCIPcreateConsBasicNonlinear\<close>) has a name, made of the kind and
  the number \<^verbatim>\<open>nlno\<close>, its expression, its two sides, and the linear terms added with
  \<^verbatim>\<open>SCIPaddLinearVarNonlinear\<close>.
\<close>

datatype consname = NonlinearObj nat | NonlinearExp nat

record nlcons =
  cons_name :: consname
  cons_expr :: expr
  cons_lhs :: real
  cons_rhs :: real
  cons_linear :: "(int \<times> real) list"

record scip =
  nvars :: nat
  feastol :: real
  conss :: "nlcons list"

text \<open>The initial values of the locals, lines 84 to 121 and 186.\<close>

definition init_state :: "real list \<Rightarrow> expr option list \<Rightarrow> nlstate" where
  "init_state ins ex =
     \<lparr>instr = ins, state = READ, args0 = EMPTY, args1 = EMPTY, savexp = 0,
      savexplst = replicate (nat MAX_DEPTH) EMPTY, psavexplst = -1,
      savvarlst = replicate (nat MAX_DEPTH) EMPTY, psavvarlst = -1,
      savprolst = replicate (2 * nat MAX_DEPTH) EMPTY, psavprolst = -1,
      varcnt = -1, vari = -1, expno = 0, num = 0, exparr = ex\<rparr>"

text \<open>
  Lines 202 to 220: the two streams of two elements are compiled without the main loop,
  which is skipped by \<^verbatim>\<open>no_instr = 0\<close>. The result is the array \<^verbatim>\<open>exp\<close> and \<^verbatim>\<open>no_instr\<close>.
\<close>

definition short_circuit :: "real list \<Rightarrow> expr list \<Rightarrow> expr option list
    \<Rightarrow> error + (expr option list \<times> nat)" where
  "short_circuit ins ev ex =
     bind_err (if length ins = 2 \<and> ins ! 0 = real_of_int NUM
               then bind_err (store ''exp'' ex 0 (Some (ExprValue (ins ! 1)))) (\<lambda>a. Inr (a, 0))
               else Inr (ex, length ins)) (\<lambda>(ex1, n1).
       if n1 = 2 \<and> ins ! 0 = real_of_int VAR
       then bind_err (get_var ev 0) (\<lambda>v.
            bind_err (store ''exp'' ex1 0 (Some (ExprSum [v] [1] 0))) (\<lambda>a. Inr (a, 0)))
       else Inr (ex1, n1))"

text \<open>
  Lines 830 to 840: with a validation point, \<^verbatim>\<open>SCIPsetSolVals\<close> reads \<open>nvars\<close> values of it and
  the root \<^verbatim>\<open>exp[expno]\<close> is evaluated; without one \<^verbatim>\<open>fval\<close> stays 0.
\<close>

definition validate :: "nat \<Rightarrow> real list option \<Rightarrow> nlstate \<Rightarrow> error + real" where
  "validate nv xval s =
     (case xval of
        None \<Rightarrow> Inr 0
      | Some point \<Rightarrow>
          if length point < nv then Inl (MemoryFault ''xval'' (int (length point)))
          else bind_err (get_exp s (expno s)) (\<lambda>rt. evalExpr point rt))"

text \<open>
  Lines 862 to 865 release \<^verbatim>\<open>exp[expno]\<close> down to \<^verbatim>\<open>exp[0]\<close>: each of them must have been
  written.
\<close>

definition release_all :: "nlstate \<Rightarrow> error + unit" where
  "release_all s =
     (if expno s < 0 \<or> list_all (\<lambda>c. c \<noteq> None) (take (nat (expno s) + 1) (exparr s))
      then Inr () else Inl (MemoryFault ''exp'' (expno s)))"

text \<open>
  Lines 196 to 200: for an objective a new variable \<^verbatim>\<open>nlobj\<close> is created and added to the
  problem; it gets the next index, the number of variables before the call.
\<close>

definition add_objective_var :: "bool \<Rightarrow> scip \<Rightarrow> scip" where
  "add_objective_var isObj sc = (if isObj then sc\<lparr>nvars := nvars sc + 1\<rparr> else sc)"

text \<open>
  Lines 842 to 859: the constraint over the root is created, for an objective \<^verbatim>\<open>nlobj\<close>
  enters it with coefficient \<open>-1\<close>, and it is added to the problem. \<open>nv\<close> is the number of
  variables at the start of the call, the index of \<^verbatim>\<open>nlobj\<close>.
\<close>

definition emit_constraint :: "nat \<Rightarrow> expr \<Rightarrow> real \<Rightarrow> real \<Rightarrow> nat \<Rightarrow> bool \<Rightarrow> scip \<Rightarrow> scip" where
  "emit_constraint nv rt lhs rhs nlno isObj sc =
     sc\<lparr>conss := conss sc @
        [\<lparr>cons_name = (if isObj then NonlinearObj nlno else NonlinearExp nlno),
          cons_expr = rt, cons_lhs = lhs, cons_rhs = rhs,
          cons_linear = (if isObj then [(int nv, -1)] else [])\<rparr>]\<rparr>"

text \<open>
  \<^verbatim>\<open>addNonlinearCon\<close> (lines 67 to 877). The result is the value \<^verbatim>\<open>fval\<close> that the function
  returns, the problem with the new constraint, and the caller's instruction array as the
  call leaves it.
\<close>

definition addNonlinearCon :: "scip \<Rightarrow> real list \<Rightarrow> real \<Rightarrow> real \<Rightarrow> real list option
    \<Rightarrow> nat \<Rightarrow> bool \<Rightarrow> error + (real \<times> scip \<times> real list)" where
  "addNonlinearCon sc ins lhs rhs xval nlno isObj =
     bind_err (decode (nvars sc) ins) (\<lambda>pre.
     bind_err (short_circuit ins (expvars pre) (replicate (max (no_ops pre) 1) None)) (\<lambda>(ex, n).
     bind_err (run (expvars pre) n [0..<n] (init_state ins ex)) (\<lambda>s.
     bind_err (validate (nvars sc) xval s) (\<lambda>fval.
     bind_err (get_exp s (expno s)) (\<lambda>rt.
     bind_err (release_all s) (\<lambda>_.
       Inr (fval,
            emit_constraint (nvars sc) rt lhs rhs nlno isObj (add_objective_var isObj sc),
            instr s)))))))"

subsection \<open>The caller\<close>

text \<open>
  Modelled from the spec: \<^verbatim>\<open>SCIPisFeasPositive\<close> of the SCIP library is not part of the
  repository; section 4.3 of the specification compares the difference against the
  feasibility tolerance.
\<close>

definition SCIPisFeasPositive :: "scip \<Rightarrow> real \<Rightarrow> bool" where
  "SCIPisFeasPositive sc v = (v > feastol sc)"

text \<open>
  \<^verbatim>\<open>mexFunction\<close> of \<^verbatim>\<open>scipmex.cpp\<close>, lines 1320 to 1397, calls \<^verbatim>\<open>addNonlinearCon\<close> at three
  places: for each cell of a cell array of constraints, for a single constraint, and
  for the objective. At each of them, with a validation point the returned value is
  compared with the expected one; a difference is a warning (\<^verbatim>\<open>mexWarnMsgTxt\<close>, which
  returns) and clears the flag \<^verbatim>\<open>ts\<close>. The warning is kept with the number of the
  constraint and the difference.
\<close>

datatype warning = FailedValidation nat real | FailedObjectiveValidation real

record mexstate =
  problem :: scip
  warnings :: "warning list"
  ts :: int

text \<open>Lines 1351 to 1372, a single constraint; the expected value is \<^verbatim>\<open>*conval\<close>.\<close>

definition add_single_constraint :: "mexstate \<Rightarrow> real list \<Rightarrow> real \<Rightarrow> real
    \<Rightarrow> real list option \<Rightarrow> real \<Rightarrow> error + (mexstate \<times> real list)" where
  "add_single_constraint m ins cl cu xval conval =
     bind_err (addNonlinearCon (problem m) ins cl cu xval 0 False) (\<lambda>(cval, sc, ins1).
       let m1 = m\<lparr>problem := sc\<rparr> in
       case xval of
         None \<Rightarrow> Inr (m1, ins1)
       | Some _ \<Rightarrow>
           let err = \<bar>cval - conval\<bar> in
           if SCIPisFeasPositive sc err
           then Inr (m1\<lparr>warnings := warnings m1 @ [FailedValidation 0 err], ts := 0\<rparr>, ins1)
           else Inr (m1, ins1))"

text \<open>
  Lines 1377 to 1396, the objective: the call has both sides 0, the number 0 and
  \<^verbatim>\<open>isObj = true\<close>; the expected value is \<^verbatim>\<open>*objval\<close>.
\<close>

definition add_objective :: "mexstate \<Rightarrow> real list \<Rightarrow> real list option \<Rightarrow> real
    \<Rightarrow> error + (mexstate \<times> real list)" where
  "add_objective m ins xval objval =
     bind_err (addNonlinearCon (problem m) ins 0 0 xval 0 True) (\<lambda>(oval, sc, ins1).
       let m1 = m\<lparr>problem := sc\<rparr> in
       case xval of
         None \<Rightarrow> Inr (m1, ins1)
       | Some _ \<Rightarrow>
           let err = \<bar>oval - objval\<bar> in
           if SCIPisFeasPositive sc err
           then Inr (m1\<lparr>warnings := warnings m1 @ [FailedObjectiveValidation err], ts := 0\<rparr>, ins1)
           else Inr (m1, ins1))"

text \<open>
  Lines 1323 to 1347, the loop over the cells from the index \<open>i\<close> on. A cell is an
  instruction array with its two sides \<^verbatim>\<open>cl[i]\<close> and \<^verbatim>\<open>cu[i]\<close> (lines 273 and 274 have checked
  that there are as many sides as cells); the expected value is \<^verbatim>\<open>conval[i]\<close>. The result
  holds the instruction arrays as the calls leave them.
\<close>

fun add_cell_constraints :: "mexstate \<Rightarrow> (real list \<times> real \<times> real) list \<Rightarrow> real list option
    \<Rightarrow> real list \<Rightarrow> nat \<Rightarrow> error + (mexstate \<times> real list list)" where
  "add_cell_constraints m [] xval conval i = Inr (m, [])"
| "add_cell_constraints m ((ins, cl, cu) # cells) xval conval i =
     bind_err (addNonlinearCon (problem m) ins cl cu xval i False) (\<lambda>(cval, sc, ins1).
     bind_err (let m1 = m\<lparr>problem := sc\<rparr> in
               case xval of
                 None \<Rightarrow> Inr m1
               | Some _ \<Rightarrow>
                   bind_err (load ''conval'' conval (int i)) (\<lambda>expected.
                     let err = \<bar>cval - expected\<bar> in
                     if SCIPisFeasPositive sc err
                     then Inr (m1\<lparr>warnings := warnings m1 @ [FailedValidation i err], ts := 0\<rparr>)
                     else Inr m1)) (\<lambda>m2.
     bind_err (add_cell_constraints m2 cells xval conval (i + 1)) (\<lambda>(m3, inss).
       Inr (m3, ins1 # inss))))"

subsection \<open>Example problems\<close>

text \<open>Two problems without constraints, with one and with three variables.\<close>

definition one_var_problem :: scip where
  "one_var_problem = \<lparr>nvars = 1, feastol = 1 / 1000000, conss = []\<rparr>"

definition three_var_problem :: scip where
  "three_var_problem = \<lparr>nvars = 3, feastol = 1 / 1000000, conss = []\<rparr>"

text \<open>
  The builder about to dispatch the operator of \<open>x0 + 3\<close>, with the operands \<open>(VAR, NUM)\<close>, and
  of \<open>1 + 2\<close>, with the operands \<open>(NUM, NUM)\<close>.
\<close>

definition var_plus_num_state :: nlstate where
  "var_plus_num_state =
     (init_state [real_of_int VAR, 0, real_of_int NUM, 3, real_of_int ADD, 0] [None])
       \<lparr>state := ADD, args0 := VAR, args1 := NUM, varcnt := 0, vari := 0, num := 3\<rparr>"

definition num_plus_num_state :: nlstate where
  "num_plus_num_state =
     (init_state [real_of_int NUM, 1, real_of_int NUM, 2, real_of_int ADD, 0] [None])
       \<lparr>state := ADD, args0 := NUM, args1 := NUM, num := 2\<rparr>"

text \<open>
  A result that is not an error.
\<close>

definition succeeds :: "error + 'a \<Rightarrow> bool" where
  "succeeds m = (case m of Inl _ \<Rightarrow> False | Inr _ \<Rightarrow> True)"

text \<open>
  The dispatches of a binary operator that have a case creating a node: the slot
  \<^verbatim>\<open>exp[expno]\<close> exists, the pair of operand kinds is one of the six with a case, the
  operator is one that this case creates a node for (not a power with a variable or a
  saved expression as second operand, not a division by the constant 0 in the
  direction that the case checks), and the operands that the case reads are there.
\<close>

definition handled_case :: "expr list \<Rightarrow> nat \<Rightarrow> nlstate \<Rightarrow> bool" where
  "handled_case ev i s \<longleftrightarrow>
     0 \<le> expno s \<and> expno s < int (length (exparr s)) \<and>
     ((args0 s = NUM \<and> args1 s = VAR \<and> state s \<in> {ADD, SUB, MUL, DIV}
         \<and> succeeds (get_var ev (vari s)))
      \<or> (args0 s = VAR \<and> args1 s = NUM
         \<and> (state s \<in> {ADD, SUB, MUL, POW} \<or> (state s = DIV \<and> num s \<noteq> 0))
         \<and> succeeds (get_var ev (vari s)))
      \<or> (args0 s = VAR \<and> args1 s = VAR \<and> state s \<in> {ADD, SUB, MUL, DIV}
         \<and> succeeds (get_var ev (vari s - 1)) \<and> succeeds (get_var ev (vari s)))
      \<or> (args0 s = EXP \<and> args1 s = NUM
         \<and> (state s \<in> {ADD, SUB, MUL, POW} \<or> (state s = DIV \<and> (num s \<noteq> 0 \<or> instr s ! i = 1)))
         \<and> succeeds (get_exp s (expno s - 1)))
      \<or> (args0 s = EXP \<and> args1 s = VAR \<and> state s \<in> {ADD, SUB, MUL, DIV}
         \<and> succeeds (get_exp s (expno s - 1)) \<and> succeeds (get_var ev (vari s)))
      \<or> (args0 s = EXP \<and> args1 s = EXP \<and> state s \<in> {ADD, SUB, MUL, DIV}
         \<and> (case load ''savexplst'' (savexplst s) (psavexplst s) of
               Inl _ \<Rightarrow> False
             | Inr sv \<Rightarrow> 0 \<le> sv \<and> succeeds (get_exp s sv))
         \<and> succeeds (get_exp s (expno s - 1))))"

text \<open>
  The builder about to dispatch the operator \<open>op\<close> with the operand kinds \<open>a0\<close> and \<open>a1\<close>, over
  the variable expressions \<open>[ExprVar 0, ExprVar 1]\<close>: the last variable read is the second
  one, the constant read is 3, two expressions have been built, and the first of them
  is saved for later.
\<close>

definition dispatch_example :: "int \<Rightarrow> int \<Rightarrow> int \<Rightarrow> nlstate" where
  "dispatch_example a0 a1 op =
     (init_state (replicate 6 0) [Some (ExprVar 0), Some (ExprVar 1), None])
       \<lparr>state := op, args0 := a0, args1 := a1, varcnt := 1, vari := 1, expno := 2, num := 3,
        savexplst := (replicate (nat MAX_DEPTH) EMPTY)[0 := 0], psavexplst := 0,
        savprolst := (replicate (2 * nat MAX_DEPTH) EMPTY)[0 := EXP], psavprolst := 0\<rparr>"

text \<open>
  The difference \<open>x0 - (x0 - (x0 - ...))\<close> of \<open>n\<close> variables, nested to the right: the \<open>n\<close>
  variables, then the \<open>n - 1\<close> subtractions, each opcode with its slot.
\<close>

definition nested_difference :: "nat \<Rightarrow> real list" where
  "nested_difference n =
     concat (replicate n [real_of_int VAR, 0]) @ concat (replicate (n - 1) [real_of_int SUB, 0])"

text \<open>
  The builder between two instructions of the stream \<open>ins\<close>, with two variables as operands
  and \<open>k\<close> variables saved for later.
\<close>

definition waiting_vars :: "real list \<Rightarrow> nat \<Rightarrow> nlstate \<Rightarrow> bool" where
  "waiting_vars ins k s \<longleftrightarrow>
     instr s = ins \<and> state s = READ \<and> args0 s = VAR \<and> args1 s = VAR \<and>
     psavvarlst s = int k - 1 \<and> psavprolst s = int k - 1 \<and>
     length (savvarlst s) = nat MAX_DEPTH \<and> length (savprolst s) = 2 * nat MAX_DEPTH"

text \<open>
  The builder on \<open>[VAR, 0, VAR, 1, POW, 0]\<close>, the power \<open>x0 ^ x1\<close>, after the opcode of the power
  has been read.
\<close>

definition pow_example_state :: nlstate where
  "pow_example_state =
     (init_state [real_of_int VAR, 0, real_of_int VAR, 1, real_of_int POW, 0] [None])
       \<lparr>state := POW, args0 := VAR, args1 := VAR, varcnt := 1\<rparr>"

text \<open>
  The stream of \<open>x0 + 3\<close>, and the caller before any nonlinear constraint is added to the
  problem with three variables.
\<close>

definition sum_example :: "real list" where
  "sum_example = [real_of_int VAR, 0, real_of_int NUM, 3, real_of_int ADD, 0]"

definition fresh_mexstate :: mexstate where
  "fresh_mexstate = \<lparr>problem = three_var_problem, warnings = [], ts = 1\<rparr>"

section \<open>Properties\<close>

subsection \<open>Auxiliary facts\<close>

lemmas opcode_defs =
  EMPTY_def READ_def NUM_def VAR_def EXP_def MUL_def DIV_def ADD_def SUB_def SQUARE_def
  SQRT_def POW_def EXPNT_def LOG_def SIN_def COS_def TAN_def MIN_op_def MAX_op_def ABS_def SIGN_def
  OTHER_def EXIT_def

lemma c_int_of_int [simp]: "c_int (real_of_int k) = k"
  by (simp add: c_int_def)

lemma c_int_numerals [simp]:
  "c_int 0 = 0" "c_int 1 = 1" "c_int (numeral n) = numeral n"
  "c_int (- numeral n) = - numeral n"
  by (simp_all add: c_int_def)

lemma bind_err_simps [simp]:
  "bind_err (Inl e) f = Inl e" "bind_err (Inr x) f = f x"
  by (simp_all add: bind_err_def)

lemma bind_err_Inr_iff: "bind_err m f = Inr y \<longleftrightarrow> (\<exists>x. m = Inr x \<and> f x = Inr y)"
  by (cases m) simp_all

lemma run_append:
  "run ev n (xs @ ys) s = bind_err (run ev n xs s) (run ev n ys)"
  by (induction xs arbitrary: s) (simp_all split: sum.splits)

lemma run_fails:
  "step ev n i s = Inl e \<Longrightarrow> run ev n (i # is) s = Inl e"
  by simp

lemma upt6: "[0..<6] = [0, 1, 2, 3, 4, 5]"
  by code_simp

lemma upt10: "[0..<10] = [0, 1, 2, 3, 4, 5, 6, 7, 8, 9]"
  by code_simp

lemmas step_defs = step_def step_num_def step_var_def step_binary_def step_unary_def
  pop_waiting_def dispatch_binary_def finish_op_def push_exp_def push_var_def
  saved_var_number_def num_op_var_def var_op_num_def var_op_var_def exp_op_num_def
  exp_op_var_def exp_op_exp_def get_var_def get_exp_def set_exp_def load_def store_def
  fcn_node_def

lemmas call_defs = addNonlinearCon_def decode_def short_circuit_def init_state_def
  validate_def release_all_def

subsection \<open>Division by the constant zero\<close>

lemma dispatch_div_var_num_zero:
  "state s = DIV \<Longrightarrow> num s = 0 \<Longrightarrow> args0 s = VAR \<Longrightarrow> args1 s = NUM
   \<Longrightarrow> dispatch_binary ev k s = Inl DivisionByConstantZero"
  by (simp add: dispatch_binary_def var_op_num_def opcode_defs)

lemma dispatch_div_exp_num_zero:
  "state s = DIV \<Longrightarrow> num s = 0 \<Longrightarrow> args0 s = EXP \<Longrightarrow> args1 s = NUM \<Longrightarrow> instr s ! k \<noteq> 1
   \<Longrightarrow> dispatch_binary ev k s = Inl DivisionByConstantZero"
  by (simp add: dispatch_binary_def exp_op_num_def opcode_defs)

text \<open>
  C1 (as stated, refuted). The claim says that the stream \<open>[VAR, i, NUM, 0.0, DIV]\<close> compiles
  and that the division by zero shows only when the tree is evaluated. With the slot
  that follows every opcode, the call fails while building, with the message
  "Division by constant 0." and without any validation point; without that slot the
  operator is never processed and the root \<^verbatim>\<open>exp[0]\<close> is read unwritten.
\<close>

theorem division_by_zero_only_at_evaluation_counterexample:
  "addNonlinearCon one_var_problem
     [real_of_int VAR, 0, real_of_int NUM, 0, real_of_int DIV, 0] 0 0 None 0 False
     = Inl DivisionByConstantZero
   \<and> addNonlinearCon one_var_problem
     [real_of_int VAR, 0, real_of_int NUM, 0, real_of_int DIV] 0 0 None 0 False
     = Inl (MemoryFault ''exp'' 0)"
  by (simp add: one_var_problem_def call_defs step_defs opcode_defs upt6 upt_rec)

text \<open>
  C1 (amended). For every stream \<open>[VAR, i, NUM, 0.0, DIV, f]\<close> with a valid variable index,
  whatever the slot \<open>f\<close> after the operator, the bounds, the validation point and the kind
  of the call, \<^verbatim>\<open>addNonlinearCon\<close> fails while building, with "Division by constant 0.":
  nothing is evaluated and no constraint is added. In general a division whose
  operands are a variable and the constant 0, or an expression and the constant 0 with
  the flag for flipped operands not set, fails so when it is dispatched.
\<close>

theorem division_by_constant_zero_fails_at_build:
  assumes "0 \<le> c_int i" and "c_int i < int (nvars sc)"
  shows "addNonlinearCon sc [real_of_int VAR, i, real_of_int NUM, 0, real_of_int DIV, f]
           lhs rhs xval nlno isObj = Inl DivisionByConstantZero
         \<and> message DivisionByConstantZero = ''Division by constant 0.''
         \<and> (\<forall>ev k s. state s = DIV \<and> num s = 0 \<and> args1 s = NUM \<and>
               (args0 s = VAR \<or> (args0 s = EXP \<and> instr s ! k \<noteq> 1))
               \<longrightarrow> dispatch_binary ev k s = Inl DivisionByConstantZero)"
proof -
  have "addNonlinearCon sc [real_of_int VAR, i, real_of_int NUM, 0, real_of_int DIV, f]
           lhs rhs xval nlno isObj = Inl DivisionByConstantZero"
    using assms by (simp add: call_defs step_defs opcode_defs upt6)
  moreover have "\<forall>ev k s. state s = DIV \<and> num s = 0 \<and> args1 s = NUM \<and>
               (args0 s = VAR \<or> (args0 s = EXP \<and> instr s ! k \<noteq> 1))
               \<longrightarrow> dispatch_binary ev k s = Inl DivisionByConstantZero"
    using dispatch_div_var_num_zero dispatch_div_exp_num_zero by blast
  ultimately show ?thesis by simp
qed

theorem division_by_constant_zero_fails_at_build_witness:
  "0 \<le> c_int 2 \<and> c_int 2 < int (nvars three_var_problem)
   \<and> addNonlinearCon three_var_problem
        [real_of_int VAR, 2, real_of_int NUM, 0, real_of_int DIV, 0]
        0 1 (Some [1, 2, 3]) 0 False = Inl DivisionByConstantZero
   \<and> dispatch_binary [ExprVar 2] 5
        ((init_state [real_of_int VAR, 2, real_of_int NUM, 0, real_of_int DIV, 0] [None])
           \<lparr>state := DIV, args0 := VAR, args1 := NUM, varcnt := 0\<rparr>)
      = Inl DivisionByConstantZero"
proof -
  have h: "0 \<le> c_int 2" "c_int 2 < int (nvars three_var_problem)"
    by (simp_all add: three_var_problem_def)
  let ?s = "(init_state [real_of_int VAR, 2, real_of_int NUM, 0, real_of_int DIV, 0] [None])
           \<lparr>state := DIV, args0 := VAR, args1 := NUM, varcnt := 0\<rparr>"
  have p: "state ?s = DIV \<and> num ?s = 0 \<and> args1 ?s = NUM \<and>
           (args0 ?s = VAR \<or> (args0 ?s = EXP \<and> instr ?s ! 5 \<noteq> 1))"
    by (simp add: init_state_def)
  show ?thesis
    using h p division_by_constant_zero_fails_at_build [OF h, of 0 0 1 "Some [1, 2, 3]" 0 False]
    by blast
qed

subsection \<open>The pairs of operand kinds of a binary operator\<close>

lemma set_exp_Inr:
  "set_exp e s = Inr t \<Longrightarrow>
     0 \<le> expno s \<and> expno s < int (length (exparr s)) \<and>
     t = s\<lparr>exparr := (exparr s)[nat (expno s) := Some e]\<rparr>"
  by (auto simp: set_exp_def store_def split: if_splits)

lemma store_node_Inr:
  assumes "bind_err m (\<lambda>e. bind_err (set_exp e s) (\<lambda>t. Inr (t\<lparr>args0 := EXP, args1 := EMPTY\<rparr>))) = Inr u"
  shows "0 \<le> expno s \<and> expno s < int (length (exparr s)) \<and>
         (\<exists>e. exparr u = (exparr s)[nat (expno s) := Some e]) \<and>
         args0 u = EXP \<and> args1 u = EMPTY \<and> expno u = expno s"
proof -
  from assms obtain e t where "set_exp e s = Inr t" and u: "u = t\<lparr>args0 := EXP, args1 := EMPTY\<rparr>"
    by (auto simp: bind_err_Inr_iff)
  from set_exp_Inr [OF this(1)] u show ?thesis by auto
qed

lemma dispatch_binary_Inr:
  assumes "dispatch_binary ev i s = Inr u"
  shows "(args0 s, args1 s) \<in> {(NUM, VAR), (VAR, NUM), (VAR, VAR), (EXP, NUM), (EXP, VAR), (EXP, EXP)}
         \<and> 0 \<le> expno s \<and> expno s < int (length (exparr s))
         \<and> (\<exists>e. exparr u = (exparr s)[nat (expno s) := Some e])
         \<and> args0 u = EXP \<and> args1 u = EMPTY \<and> expno u = expno s"
proof -
  consider (nv) "args0 s = NUM" "args1 s = VAR" | (vn) "args0 s = VAR" "args1 s = NUM"
    | (vv) "args0 s = VAR" "args1 s = VAR" | (en) "args0 s = EXP" "args1 s = NUM"
    | (ev) "args0 s = EXP" "args1 s = VAR" | (ee) "args0 s = EXP" "args1 s = EXP"
    using assms by (auto simp: dispatch_binary_def split: if_splits)
  then show ?thesis
  proof cases
    case nv
    with assms have "bind_err (num_op_var ev s) (\<lambda>e. bind_err (set_exp e s)
        (\<lambda>t. Inr (t\<lparr>args0 := EXP, args1 := EMPTY\<rparr>))) = Inr u"
      by (simp add: dispatch_binary_def opcode_defs)
    from store_node_Inr [OF this] nv show ?thesis by simp
  next
    case vn
    with assms have "bind_err (var_op_num ev s) (\<lambda>e. bind_err (set_exp e s)
        (\<lambda>t. Inr (t\<lparr>args0 := EXP, args1 := EMPTY\<rparr>))) = Inr u"
      by (simp add: dispatch_binary_def opcode_defs)
    from store_node_Inr [OF this] vn show ?thesis by simp
  next
    case vv
    with assms have "bind_err (var_op_var ev s) (\<lambda>e. bind_err (set_exp e s)
        (\<lambda>t. Inr (t\<lparr>args0 := EXP, args1 := EMPTY\<rparr>))) = Inr u"
      by (simp add: dispatch_binary_def opcode_defs)
    from store_node_Inr [OF this] vv show ?thesis by simp
  next
    case en
    with assms have "bind_err (exp_op_num i s) (\<lambda>e. bind_err (set_exp e s)
        (\<lambda>t. Inr (t\<lparr>args0 := EXP, args1 := EMPTY\<rparr>))) = Inr u"
      by (simp add: dispatch_binary_def opcode_defs)
    from store_node_Inr [OF this] en show ?thesis by simp
  next
    case ev
    with assms have "bind_err (exp_op_var ev i s) (\<lambda>e. bind_err (set_exp e s)
        (\<lambda>t. Inr (t\<lparr>args0 := EXP, args1 := EMPTY\<rparr>))) = Inr u"
      by (simp add: dispatch_binary_def opcode_defs)
    from store_node_Inr [OF this] ev show ?thesis by simp
  next
    case ee
    with assms have "bind_err (exp_op_exp i s) (\<lambda>(e, sv). bind_err (set_exp e (s\<lparr>savexp := sv\<rparr>))
        (\<lambda>t. Inr (t\<lparr>args0 := EXP, args1 := EMPTY, psavexplst := psavexplst t - 1\<rparr>))) = Inr u"
      by (simp add: dispatch_binary_def opcode_defs)
    then obtain e sv t where t: "set_exp e (s\<lparr>savexp := sv\<rparr>) = Inr t"
      and u: "u = t\<lparr>args0 := EXP, args1 := EMPTY, psavexplst := psavexplst t - 1\<rparr>"
      by (auto simp: bind_err_Inr_iff)
    from set_exp_Inr [OF t] u ee show ?thesis by auto
  qed
qed

lemma dispatch_binary_no_case:
  assumes "(args0 s, args1 s) \<in> {(NUM, NUM), (NUM, EXP), (VAR, EXP)}"
  shows "dispatch_binary ev i s = Inl GroupingNotImplemented"
  using assms by (auto simp: dispatch_binary_def opcode_defs)

lemma succeeds_iff: "succeeds m \<longleftrightarrow> (\<exists>x. m = Inr x)"
  by (cases m) (simp_all add: succeeds_def)

lemma store_node_ok:
  assumes "m = Inr e" and "0 \<le> expno s" and "expno s < int (length (exparr s))"
  shows "bind_err m (\<lambda>e. bind_err (set_exp e s) (\<lambda>t. Inr (t\<lparr>args0 := EXP, args1 := EMPTY\<rparr>)))
           = Inr (s\<lparr>exparr := (exparr s)[nat (expno s) := Some e], args0 := EXP, args1 := EMPTY\<rparr>)"
  using assms by (simp add: set_exp_def store_def)

lemma num_op_var_ok:
  assumes "state s \<in> {ADD, SUB, MUL, DIV}" and "succeeds (get_var ev (vari s))"
  shows "\<exists>e. num_op_var ev s = Inr e"
  using assms by (auto simp: succeeds_iff num_op_var_def opcode_defs)

lemma var_op_num_ok:
  assumes "state s \<in> {ADD, SUB, MUL, POW} \<or> (state s = DIV \<and> num s \<noteq> 0)"
    and "succeeds (get_var ev (vari s))"
  shows "\<exists>e. var_op_num ev s = Inr e"
  using assms by (auto simp: succeeds_iff var_op_num_def opcode_defs)

lemma var_op_var_ok:
  assumes "state s \<in> {ADD, SUB, MUL, DIV}"
    and "succeeds (get_var ev (vari s - 1))" and "succeeds (get_var ev (vari s))"
  shows "\<exists>e. var_op_var ev s = Inr e"
  using assms by (auto simp: succeeds_iff var_op_var_def opcode_defs)

lemma exp_op_num_ok:
  assumes "state s \<in> {ADD, SUB, MUL, POW} \<or> (state s = DIV \<and> (num s \<noteq> 0 \<or> instr s ! i = 1))"
    and "succeeds (get_exp s (expno s - 1))"
  shows "\<exists>e. exp_op_num i s = Inr e"
  using assms by (auto simp: succeeds_iff exp_op_num_def opcode_defs)

lemma exp_op_var_ok:
  assumes "state s \<in> {ADD, SUB, MUL, DIV}"
    and "succeeds (get_exp s (expno s - 1))" and "succeeds (get_var ev (vari s))"
  shows "\<exists>e. exp_op_var ev i s = Inr e"
  using assms by (auto simp: succeeds_iff exp_op_var_def opcode_defs)

lemma exp_op_exp_ok:
  assumes "state s \<in> {ADD, SUB, MUL, DIV}"
    and "load ''savexplst'' (savexplst s) (psavexplst s) = Inr sv" and "0 \<le> sv"
    and "succeeds (get_exp s sv)" and "succeeds (get_exp s (expno s - 1))"
  shows "\<exists>e. exp_op_exp i s = Inr (e, sv)"
  using assms by (auto simp: succeeds_iff exp_op_exp_def opcode_defs)

lemma dispatch_binary_handled:
  assumes "handled_case ev i s"
  shows "\<exists>u e. dispatch_binary ev i s = Inr u
           \<and> exparr u = (exparr s)[nat (expno s) := Some e]
           \<and> args0 u = EXP \<and> args1 u = EMPTY"
proof -
  from assms have r: "0 \<le> expno s" "expno s < int (length (exparr s))"
    by (simp_all add: handled_case_def)
  from assms consider
      (nv) "args0 s = NUM" "args1 s = VAR" "state s \<in> {ADD, SUB, MUL, DIV}"
        "succeeds (get_var ev (vari s))"
    | (vn) "args0 s = VAR" "args1 s = NUM"
        "state s \<in> {ADD, SUB, MUL, POW} \<or> (state s = DIV \<and> num s \<noteq> 0)"
        "succeeds (get_var ev (vari s))"
    | (vv) "args0 s = VAR" "args1 s = VAR" "state s \<in> {ADD, SUB, MUL, DIV}"
        "succeeds (get_var ev (vari s - 1))" "succeeds (get_var ev (vari s))"
    | (en) "args0 s = EXP" "args1 s = NUM"
        "state s \<in> {ADD, SUB, MUL, POW} \<or> (state s = DIV \<and> (num s \<noteq> 0 \<or> instr s ! i = 1))"
        "succeeds (get_exp s (expno s - 1))"
    | (ev) "args0 s = EXP" "args1 s = VAR" "state s \<in> {ADD, SUB, MUL, DIV}"
        "succeeds (get_exp s (expno s - 1))" "succeeds (get_var ev (vari s))"
    | (ee) sv where "args0 s = EXP" "args1 s = EXP" "state s \<in> {ADD, SUB, MUL, DIV}"
        "load ''savexplst'' (savexplst s) (psavexplst s) = Inr sv" "0 \<le> sv"
        "succeeds (get_exp s sv)" "succeeds (get_exp s (expno s - 1))"
    unfolding handled_case_def by (auto split: sum.splits)
  then show ?thesis
  proof cases
    case nv
    from num_op_var_ok [OF nv(3,4)] obtain e where e: "num_op_var ev s = Inr e" ..
    from nv(1,2) have "dispatch_binary ev i s
        = bind_err (num_op_var ev s) (\<lambda>e. bind_err (set_exp e s) (\<lambda>t. Inr (t\<lparr>args0 := EXP, args1 := EMPTY\<rparr>)))"
      by (simp add: dispatch_binary_def opcode_defs)
    with store_node_ok [OF e r] show ?thesis by auto
  next
    case vn
    from var_op_num_ok [OF vn(3,4)] obtain e where e: "var_op_num ev s = Inr e" ..
    from vn(1,2) have "dispatch_binary ev i s
        = bind_err (var_op_num ev s) (\<lambda>e. bind_err (set_exp e s) (\<lambda>t. Inr (t\<lparr>args0 := EXP, args1 := EMPTY\<rparr>)))"
      by (simp add: dispatch_binary_def opcode_defs)
    with store_node_ok [OF e r] show ?thesis by auto
  next
    case vv
    from var_op_var_ok [OF vv(3,4,5)] obtain e where e: "var_op_var ev s = Inr e" ..
    from vv(1,2) have "dispatch_binary ev i s
        = bind_err (var_op_var ev s) (\<lambda>e. bind_err (set_exp e s) (\<lambda>t. Inr (t\<lparr>args0 := EXP, args1 := EMPTY\<rparr>)))"
      by (simp add: dispatch_binary_def opcode_defs)
    with store_node_ok [OF e r] show ?thesis by auto
  next
    case en
    from exp_op_num_ok [OF en(3,4)] obtain e where e: "exp_op_num i s = Inr e" ..
    from en(1,2) have "dispatch_binary ev i s
        = bind_err (exp_op_num i s) (\<lambda>e. bind_err (set_exp e s) (\<lambda>t. Inr (t\<lparr>args0 := EXP, args1 := EMPTY\<rparr>)))"
      by (simp add: dispatch_binary_def opcode_defs)
    with store_node_ok [OF e r] show ?thesis by auto
  next
    case ev
    from exp_op_var_ok [OF ev(3,4,5)] obtain e where e: "exp_op_var ev i s = Inr e" ..
    from ev(1,2) have "dispatch_binary ev i s
        = bind_err (exp_op_var ev i s) (\<lambda>e. bind_err (set_exp e s) (\<lambda>t. Inr (t\<lparr>args0 := EXP, args1 := EMPTY\<rparr>)))"
      by (simp add: dispatch_binary_def opcode_defs)
    with store_node_ok [OF e r] show ?thesis by auto
  next
    case ee
    from exp_op_exp_ok [OF ee(3,4,5,6,7)] obtain e where e: "exp_op_exp i s = Inr (e, sv)" ..
    from ee(1,2) e r have "dispatch_binary ev i s
        = Inr (s\<lparr>savexp := sv, exparr := (exparr s)[nat (expno s) := Some e],
                 args0 := EXP, args1 := EMPTY, psavexplst := psavexplst s - 1\<rparr>)"
      by (simp add: dispatch_binary_def set_exp_def store_def opcode_defs)
    then show ?thesis by auto
  qed
qed

text \<open>
  C2 (as stated, refuted). The claim says that no filled pair of operand kinds ends in
  the failure "Grouping of arguments not implemented yet."; the stream
  \<open>[NUM, 1, NUM, 2, ADD, 0]\<close>, whose operands are two constants, ends in it.
\<close>

theorem all_nine_pairs_handled_counterexample:
  "addNonlinearCon one_var_problem
     [real_of_int NUM, 1, real_of_int NUM, 2, real_of_int ADD, 0] 0 0 None 0 False
     = Inl GroupingNotImplemented"
  by (simp add: one_var_problem_def call_defs step_defs opcode_defs upt6)

text \<open>
  C2 (amended). The builder has a case for six of the nine pairs of operand kinds:
  \<open>(NUM, VAR)\<close>, \<open>(VAR, NUM)\<close>, \<open>(VAR, VAR)\<close>, \<open>(EXP, NUM)\<close>, \<open>(EXP, VAR)\<close> and \<open>(EXP, EXP)\<close>. Each of the six is
  handled: when the operands that the case reads are there, the dispatch succeeds for
  every operator of the case (all but a power with a variable or a saved expression as
  second operand and a division by the constant 0), and it creates exactly one node,
  the element of the array \<^verbatim>\<open>exp\<close> at \<^verbatim>\<open>expno\<close>, leaving the operands as \<open>(EXP, EMPTY)\<close>. Whenever
  a dispatch succeeds, the pair is one of these six and that one element is what was
  written. The three pairs \<open>(NUM, NUM)\<close>, \<open>(NUM, EXP)\<close> and \<open>(VAR, EXP)\<close> always end in the failure
  "Grouping of arguments not implemented yet.".
\<close>

theorem binary_dispatch_handles_six_pairs:
  "(handled_case ev i s \<longrightarrow>
      (\<exists>u e. dispatch_binary ev i s = Inr u
         \<and> exparr u = (exparr s)[nat (expno s) := Some e]
         \<and> args0 u = EXP \<and> args1 u = EMPTY))
   \<and> (dispatch_binary ev i s = Inr u \<longrightarrow>
      (args0 s, args1 s) \<in> {(NUM, VAR), (VAR, NUM), (VAR, VAR), (EXP, NUM), (EXP, VAR), (EXP, EXP)}
      \<and> 0 \<le> expno s \<and> expno s < int (length (exparr s))
      \<and> (\<exists>e. exparr u = (exparr s)[nat (expno s) := Some e])
      \<and> args0 u = EXP \<and> args1 u = EMPTY)
   \<and> ((args0 s, args1 s) \<in> {(NUM, NUM), (NUM, EXP), (VAR, EXP)} \<longrightarrow>
      dispatch_binary ev i s = Inl GroupingNotImplemented
      \<and> message GroupingNotImplemented = ''Grouping of arguments not implemented yet.'')"
  using dispatch_binary_handled [of ev i s] dispatch_binary_Inr [of ev i s u]
    dispatch_binary_no_case [of s ev i]
  by simp

text \<open>
  The witness: one dispatch for each of the six pairs, with a division, a power, a
  product, a division, a difference and a sum, writes \<^verbatim>\<open>exp[2]\<close>; \<open>x0 + 3\<close> is dispatched with
  the operands \<open>(VAR, NUM)\<close> and writes \<^verbatim>\<open>exp[0]\<close>; \<open>1 + 2\<close> is dispatched with the operands
  \<open>(NUM, NUM)\<close> and fails.
\<close>

theorem binary_dispatch_handles_six_pairs_witness:
  "handled_case [ExprVar 0, ExprVar 1] 5 (dispatch_example NUM VAR DIV)
   \<and> (\<exists>u e. dispatch_binary [ExprVar 0, ExprVar 1] 5 (dispatch_example NUM VAR DIV) = Inr u
         \<and> exparr u = [Some (ExprVar 0), Some (ExprVar 1), Some e] \<and> args0 u = EXP \<and> args1 u = EMPTY)
   \<and> handled_case [ExprVar 0, ExprVar 1] 5 (dispatch_example VAR NUM POW)
   \<and> (\<exists>u e. dispatch_binary [ExprVar 0, ExprVar 1] 5 (dispatch_example VAR NUM POW) = Inr u
         \<and> exparr u = [Some (ExprVar 0), Some (ExprVar 1), Some e] \<and> args0 u = EXP \<and> args1 u = EMPTY)
   \<and> handled_case [ExprVar 0, ExprVar 1] 5 (dispatch_example VAR VAR MUL)
   \<and> (\<exists>u e. dispatch_binary [ExprVar 0, ExprVar 1] 5 (dispatch_example VAR VAR MUL) = Inr u
         \<and> exparr u = [Some (ExprVar 0), Some (ExprVar 1), Some e] \<and> args0 u = EXP \<and> args1 u = EMPTY)
   \<and> handled_case [ExprVar 0, ExprVar 1] 5 (dispatch_example EXP NUM DIV)
   \<and> (\<exists>u e. dispatch_binary [ExprVar 0, ExprVar 1] 5 (dispatch_example EXP NUM DIV) = Inr u
         \<and> exparr u = [Some (ExprVar 0), Some (ExprVar 1), Some e] \<and> args0 u = EXP \<and> args1 u = EMPTY)
   \<and> handled_case [ExprVar 0, ExprVar 1] 5 (dispatch_example EXP VAR SUB)
   \<and> (\<exists>u e. dispatch_binary [ExprVar 0, ExprVar 1] 5 (dispatch_example EXP VAR SUB) = Inr u
         \<and> exparr u = [Some (ExprVar 0), Some (ExprVar 1), Some e] \<and> args0 u = EXP \<and> args1 u = EMPTY)
   \<and> handled_case [ExprVar 0, ExprVar 1] 5 (dispatch_example EXP EXP ADD)
   \<and> (\<exists>u e. dispatch_binary [ExprVar 0, ExprVar 1] 5 (dispatch_example EXP EXP ADD) = Inr u
         \<and> exparr u = [Some (ExprVar 0), Some (ExprVar 1), Some e] \<and> args0 u = EXP \<and> args1 u = EMPTY)
   \<and> dispatch_binary [ExprVar 0] 5 var_plus_num_state
     = Inr (var_plus_num_state\<lparr>exparr := [Some (ExprSum [ExprVar 0] [1] 3)],
                                args0 := EXP, args1 := EMPTY\<rparr>)
   \<and> (args0 var_plus_num_state, args1 var_plus_num_state) = (VAR, NUM)
   \<and> (\<exists>e. [Some (ExprSum [ExprVar 0] [1] 3)]
           = (exparr var_plus_num_state)[nat (expno var_plus_num_state) := Some e])
   \<and> (args0 num_plus_num_state, args1 num_plus_num_state) \<in> {(NUM, NUM), (NUM, EXP), (VAR, EXP)}
   \<and> dispatch_binary [ExprVar 0] 5 num_plus_num_state = Inl GroupingNotImplemented"
proof -
  let ?ev = "[ExprVar 0, ExprVar 1]"
  have x: "exparr (dispatch_example a0 a1 op) = [Some (ExprVar 0), Some (ExprVar 1), None]"
    "nat (expno (dispatch_example a0 a1 op)) = 2" for a0 a1 op
    by (simp_all add: dispatch_example_def init_state_def)
  have y: "[Some (ExprVar 0), Some (ExprVar 1), None][2 := Some e]
             = [Some (ExprVar 0), Some (ExprVar 1), Some e]" for e :: expr
    by (simp add: numeral_2_eq_2)
  have h: "handled_case ?ev 5 (dispatch_example NUM VAR DIV)"
    "handled_case ?ev 5 (dispatch_example VAR NUM POW)"
    "handled_case ?ev 5 (dispatch_example VAR VAR MUL)"
    "handled_case ?ev 5 (dispatch_example EXP NUM DIV)"
    "handled_case ?ev 5 (dispatch_example EXP VAR SUB)"
    "handled_case ?ev 5 (dispatch_example EXP EXP ADD)"
    by (simp_all add: handled_case_def dispatch_example_def init_state_def succeeds_def
        get_var_def get_exp_def load_def opcode_defs MAX_DEPTH_def)
  have r: "\<exists>u e. dispatch_binary ?ev 5 (dispatch_example a0 a1 op) = Inr u
         \<and> exparr u = [Some (ExprVar 0), Some (ExprVar 1), Some e] \<and> args0 u = EXP \<and> args1 u = EMPTY"
    if "handled_case ?ev 5 (dispatch_example a0 a1 op)" for a0 a1 op
    using that binary_dispatch_handles_six_pairs [of ?ev 5 "dispatch_example a0 a1 op"]
    unfolding x y by blast
  let ?u = "var_plus_num_state\<lparr>exparr := [Some (ExprSum [ExprVar 0] [1] 3)],
                                args0 := EXP, args1 := EMPTY\<rparr>"
  have a: "dispatch_binary [ExprVar 0] 5 var_plus_num_state = Inr ?u"
    by (simp add: var_plus_num_state_def init_state_def step_defs opcode_defs)
  have b: "(args0 var_plus_num_state, args1 var_plus_num_state) = (VAR, NUM)"
    by (simp add: var_plus_num_state_def init_state_def)
  have c: "(args0 num_plus_num_state, args1 num_plus_num_state) \<in> {(NUM, NUM), (NUM, EXP), (VAR, EXP)}"
    by (simp add: num_plus_num_state_def init_state_def)
  have d: "exparr ?u = [Some (ExprSum [ExprVar 0] [1] 3)]"
    by simp
  from a binary_dispatch_handles_six_pairs [of "[ExprVar 0]" 5 var_plus_num_state ?u]
  have "\<exists>e. exparr ?u = (exparr var_plus_num_state)[nat (expno var_plus_num_state) := Some e]"
    by blast
  with d have e: "\<exists>e. [Some (ExprSum [ExprVar 0] [1] 3)]
           = (exparr var_plus_num_state)[nat (expno var_plus_num_state) := Some e]"
    by simp
  from c binary_dispatch_handles_six_pairs [of "[ExprVar 0]" 5 num_plus_num_state]
  have f: "dispatch_binary [ExprVar 0] 5 num_plus_num_state = Inl GroupingNotImplemented"
    by blast
  from h r [OF h(1)] r [OF h(2)] r [OF h(3)] r [OF h(4)] r [OF h(5)] r [OF h(6)] a b c e f
  show ?thesis by blast
qed

subsection \<open>A variable as exponent\<close>

lemma dispatch_pow_var:
  assumes "state s = POW" and "args1 s = VAR"
    and "args0 s = NUM \<or> args0 s = VAR \<or>
         (args0 s = EXP \<and> (\<exists>e. get_exp s (expno s - 1) = Inr e) \<and> (\<exists>v. get_var ev (vari s) = Inr v))"
  shows "dispatch_binary ev i s = Inl VariableExponent"
  using assms
  by (auto simp: dispatch_binary_def num_op_var_def var_op_var_def exp_op_var_def opcode_defs)

lemma pop_waiting_state:
  "pop_waiting i s = Inr t \<Longrightarrow> state t = state s"
  by (auto simp: pop_waiting_def Let_def bind_err_Inr_iff split: if_splits)

lemma upt_split_at:
  "k < n \<Longrightarrow> [0..<n] = [0..<k] @ k # [Suc k..<n]"
  using upt_add_eq_append [of 0 k "n - k"] upt_conv_Cons [of k n] by simp

lemma step_pow_var:
  assumes "state s = POW" and "pop_waiting k s = Inr s1" and "args1 s1 = VAR"
    and "args0 s1 = NUM \<or> args0 s1 = VAR \<or>
         (args0 s1 = EXP \<and> succeeds (get_exp s1 (expno s1 - 1)) \<and> succeeds (get_var ev (vari s1)))"
  shows "step ev n k s = Inl VariableExponent"
proof -
  from pop_waiting_state [OF assms(2)] assms(1) have "state s1 = POW"
    by simp
  from dispatch_pow_var [OF this assms(3), of ev k] assms(4)
  have "dispatch_binary ev k s1 = Inl VariableExponent"
    by (simp add: succeeds_iff)
  with assms(1,2) show ?thesis
    by (simp add: step_def step_binary_def opcode_defs)
qed

lemma call_fails_at_step:
  assumes "decode (nvars sc) ins = Inr pre"
    and "short_circuit ins (expvars pre) (replicate (max (no_ops pre) 1) None) = Inr (ex, n)"
    and "k < n"
    and "run (expvars pre) n [0..<k] (init_state ins ex) = Inr s"
    and "step (expvars pre) n k s = Inl e"
  shows "addNonlinearCon sc ins lhs rhs xval nlno isObj = Inl e"
proof -
  from assms(4,5) have "run (expvars pre) n [0..<n] (init_state ins ex) = Inl e"
    by (simp add: upt_split_at [OF assms(3)] run_append)
  with assms(1,2) show ?thesis
    by (simp add: addNonlinearCon_def)
qed

text \<open>
  C4 (as stated, refuted). The claim names the stream \<open>[VAR, 0, VAR, 1, POW]\<close>. In the format
  that the function reads, every opcode is followed by a slot, and an operator is
  processed at the index of its slot; in this array of five elements the opcode of the
  power is the last element, it is read and the loop ends. No error for the exponent is
  raised: the call goes on to the root \<^verbatim>\<open>exp[0]\<close>, which no operator has written, with or
  without a validation point.
\<close>

theorem variable_exponent_in_every_stream_counterexample:
  "addNonlinearCon three_var_problem
     [real_of_int VAR, 0, real_of_int VAR, 1, real_of_int POW] 0 1 None 0 False
     = Inl (MemoryFault ''exp'' 0)
   \<and> addNonlinearCon three_var_problem
     [real_of_int VAR, 0, real_of_int VAR, 1, real_of_int POW] 0 1 (Some [2, 3, 4]) 0 False
     = Inl (MemoryFault ''exp'' 0)"
  by (simp add: three_var_problem_def call_defs step_defs opcode_defs upt_rec)

text \<open>
  C4 (amended). For every instruction stream in which the builder comes to process a
  power, at the slot after its opcode, with a variable as second operand (after a
  waiting operand has been taken, and with a constant, a variable or an expression
  whose parts are there as first operand), the call fails while compiling, with the
  error whose message names \<open>exp(y*log(x))\<close>, whatever follows in the stream and with or
  without a validation point, so nothing is evaluated. In particular the streams
  \<open>[VAR, i, VAR, j, POW, f]\<close>, \<open>[NUM, c, VAR, j, POW, f]\<close> and \<open>[VAR, i, NUM, c, ADD, g, VAR, j, POW, f]\<close>
  fail so for every valid pair of indices.
\<close>

theorem variable_exponent_fails_at_compile_time:
  "(decode (nvars sc) ins = Inr pre
      \<and> short_circuit ins (expvars pre) (replicate (max (no_ops pre) 1) None) = Inr (ex, n)
      \<and> k < n
      \<and> run (expvars pre) n [0..<k] (init_state ins ex) = Inr s
      \<and> state s = POW
      \<and> pop_waiting k s = Inr s1
      \<and> args1 s1 = VAR
      \<and> (args0 s1 = NUM \<or> args0 s1 = VAR \<or>
          (args0 s1 = EXP \<and> succeeds (get_exp s1 (expno s1 - 1))
             \<and> succeeds (get_var (expvars pre) (vari s1))))
    \<longrightarrow> addNonlinearCon sc ins lhs rhs xval nlno isObj = Inl VariableExponent)
   \<and> (0 \<le> c_int i \<and> c_int i < int (nvars sc) \<and> 0 \<le> c_int j \<and> c_int j < int (nvars sc)
    \<longrightarrow> addNonlinearCon sc [real_of_int VAR, i, real_of_int VAR, j, real_of_int POW, f]
           lhs rhs xval nlno isObj = Inl VariableExponent
         \<and> addNonlinearCon sc [real_of_int NUM, c, real_of_int VAR, j, real_of_int POW, f]
           lhs rhs xval nlno isObj = Inl VariableExponent
         \<and> addNonlinearCon sc
           [real_of_int VAR, i, real_of_int NUM, c, real_of_int ADD, g,
            real_of_int VAR, j, real_of_int POW, f]
           lhs rhs xval nlno isObj = Inl VariableExponent)
   \<and> message VariableExponent
       = ''You cannot use POWER with the exponent as a variable. For x^y use exp(y*log(x)).''"
proof -
  have general: "addNonlinearCon sc ins lhs rhs xval nlno isObj = Inl VariableExponent"
    if "decode (nvars sc) ins = Inr pre"
      and "short_circuit ins (expvars pre) (replicate (max (no_ops pre) 1) None) = Inr (ex, n)"
      and "k < n"
      and "run (expvars pre) n [0..<k] (init_state ins ex) = Inr s"
      and "state s = POW"
      and "pop_waiting k s = Inr s1"
      and "args1 s1 = VAR"
      and "args0 s1 = NUM \<or> args0 s1 = VAR \<or>
          (args0 s1 = EXP \<and> succeeds (get_exp s1 (expno s1 - 1))
             \<and> succeeds (get_var (expvars pre) (vari s1)))"
  proof -
    from step_pow_var [OF that(5,6,7,8)]
    have "step (expvars pre) n k s = Inl VariableExponent" .
    from call_fails_at_step [OF that(1,2,3,4) this] show ?thesis .
  qed
  have shapes: "addNonlinearCon sc [real_of_int VAR, i, real_of_int VAR, j, real_of_int POW, f]
           lhs rhs xval nlno isObj = Inl VariableExponent
         \<and> addNonlinearCon sc [real_of_int NUM, c, real_of_int VAR, j, real_of_int POW, f]
           lhs rhs xval nlno isObj = Inl VariableExponent
         \<and> addNonlinearCon sc
           [real_of_int VAR, i, real_of_int NUM, c, real_of_int ADD, g,
            real_of_int VAR, j, real_of_int POW, f]
           lhs rhs xval nlno isObj = Inl VariableExponent"
    if "0 \<le> c_int i" "c_int i < int (nvars sc)" "0 \<le> c_int j" "c_int j < int (nvars sc)"
  proof -
    have "addNonlinearCon sc [real_of_int VAR, i, real_of_int VAR, j, real_of_int POW, f]
           lhs rhs xval nlno isObj = Inl VariableExponent"
      using that by (simp add: call_defs step_defs opcode_defs upt6)
    moreover have "addNonlinearCon sc [real_of_int NUM, c, real_of_int VAR, j, real_of_int POW, f]
           lhs rhs xval nlno isObj = Inl VariableExponent"
      using that by (simp add: call_defs step_defs opcode_defs upt6)
    moreover have "addNonlinearCon sc
           [real_of_int VAR, i, real_of_int NUM, c, real_of_int ADD, g,
            real_of_int VAR, j, real_of_int POW, f]
           lhs rhs xval nlno isObj = Inl VariableExponent"
      using that by (simp add: call_defs step_defs opcode_defs upt10)
    ultimately show ?thesis by simp
  qed
  from general shapes show ?thesis
    by simp
qed

text \<open>
  The witness: in \<open>[VAR, 0, VAR, 1, POW, 0]\<close> over three variables the builder comes to the
  slot at index 5 with the power as state and two variables as operands.
\<close>

theorem variable_exponent_fails_at_compile_time_witness:
  "decode (nvars three_var_problem) [real_of_int VAR, 0, real_of_int VAR, 1, real_of_int POW, 0]
     = Inr \<lparr>no_ops = 1, no_var = 2, varind = [0, 1], expvars = [ExprVar 0, ExprVar 1]\<rparr>
   \<and> short_circuit [real_of_int VAR, 0, real_of_int VAR, 1, real_of_int POW, 0]
       [ExprVar 0, ExprVar 1] [None] = Inr ([None], 6)
   \<and> (5::nat) < 6
   \<and> run [ExprVar 0, ExprVar 1] 6 [0..<5]
       (init_state [real_of_int VAR, 0, real_of_int VAR, 1, real_of_int POW, 0] [None])
     = Inr pow_example_state
   \<and> state pow_example_state = POW
   \<and> pop_waiting 5 pow_example_state = Inr (pow_example_state\<lparr>vari := 1\<rparr>)
   \<and> args1 (pow_example_state\<lparr>vari := 1\<rparr>) = VAR
   \<and> args0 (pow_example_state\<lparr>vari := 1\<rparr>) = VAR
   \<and> addNonlinearCon three_var_problem
        [real_of_int VAR, 0, real_of_int VAR, 1, real_of_int POW, 0]
        0 1 (Some [2, 3, 4]) 0 False = Inl VariableExponent
   \<and> 0 \<le> c_int 0 \<and> c_int 0 < int (nvars three_var_problem)
   \<and> 0 \<le> c_int 1 \<and> c_int 1 < int (nvars three_var_problem)
   \<and> addNonlinearCon three_var_problem
        [real_of_int NUM, 2, real_of_int VAR, 1, real_of_int POW, 0]
        0 1 (Some [2, 3, 4]) 0 False = Inl VariableExponent
   \<and> addNonlinearCon three_var_problem
        [real_of_int VAR, 0, real_of_int NUM, 2, real_of_int ADD, 0,
         real_of_int VAR, 1, real_of_int POW, 0]
        0 1 (Some [2, 3, 4]) 0 False = Inl VariableExponent"
proof -
  let ?ins = "[real_of_int VAR, 0, real_of_int VAR, 1, real_of_int POW, 0]"
  let ?pre = "\<lparr>no_ops = 1, no_var = 2, varind = [0, 1], expvars = [ExprVar 0, ExprVar 1]\<rparr>"
  let ?s1 = "pow_example_state\<lparr>vari := 1\<rparr>"
  have u5: "[0..<5] = [0, 1, 2, 3, 4]"
    by code_simp
  have d: "decode (nvars three_var_problem) ?ins = Inr ?pre"
    by (simp add: three_var_problem_def decode_def opcode_defs store_def numeral_2_eq_2)
  have c: "short_circuit ?ins (expvars ?pre) (replicate (max (no_ops ?pre) 1) None) = Inr ([None], 6)"
    by (simp add: short_circuit_def opcode_defs)
  have k: "(5::nat) < 6"
    by simp
  have r: "run (expvars ?pre) 6 [0..<5] (init_state ?ins [None]) = Inr pow_example_state"
    by (simp add: u5 pow_example_state_def init_state_def step_def step_var_def opcode_defs)
  have p: "state pow_example_state = POW"
    by (simp add: pow_example_state_def)
  have w: "pop_waiting 5 pow_example_state = Inr ?s1"
    by (simp add: pow_example_state_def init_state_def pop_waiting_def opcode_defs)
  have a1: "args1 ?s1 = VAR" and a0: "args0 ?s1 = VAR"
    by (simp_all add: pow_example_state_def)
  have h: "0 \<le> c_int 0" "c_int 0 < int (nvars three_var_problem)"
    "0 \<le> c_int 1" "c_int 1 < int (nvars three_var_problem)"
    by (simp_all add: three_var_problem_def)
  note t = variable_exponent_fails_at_compile_time
    [of three_var_problem ?ins ?pre "[None]" 6 5 pow_example_state ?s1
        0 1 "Some [2, 3, 4]" 0 False 0 1 0 2 0]
  from t d c k r p w a1 a0
  have g: "addNonlinearCon three_var_problem ?ins 0 1 (Some [2, 3, 4]) 0 False = Inl VariableExponent"
    by blast
  from t h
  have sh: "addNonlinearCon three_var_problem
        [real_of_int NUM, 2, real_of_int VAR, 1, real_of_int POW, 0]
        0 1 (Some [2, 3, 4]) 0 False = Inl VariableExponent
     \<and> addNonlinearCon three_var_problem
        [real_of_int VAR, 0, real_of_int NUM, 2, real_of_int ADD, 0,
         real_of_int VAR, 1, real_of_int POW, 0]
        0 1 (Some [2, 3, 4]) 0 False = Inl VariableExponent"
    by blast
  have d': "decode (nvars three_var_problem) ?ins
     = Inr \<lparr>no_ops = 1, no_var = 2, varind = [0, 1], expvars = [ExprVar 0, ExprVar 1]\<rparr>"
    using d .
  have c': "short_circuit ?ins [ExprVar 0, ExprVar 1] [None] = Inr ([None], 6)"
    using c by simp
  have r': "run [ExprVar 0, ExprVar 1] 6 [0..<5] (init_state ?ins [None]) = Inr pow_example_state"
    using r by simp
  from d' c' k r' p w a1 a0 g h sh show ?thesis
    by blast
qed

subsection \<open>The streams of two elements\<close>

text \<open>
  C5. The stream \<open>[NUM, c]\<close> does not enter the main loop: the short cut stores the node of
  the constant in \<^verbatim>\<open>exp[0]\<close> and sets the number of instructions to 0. The constraint is
  built over that single node, the instruction array is unchanged, and with a
  validation point (of at least \<open>nvars\<close> values) the value returned is \<open>c\<close>; the evaluation of
  the node is \<open>c\<close> at every point.
\<close>

theorem constant_stream_is_a_constant_node:
  "short_circuit [real_of_int NUM, c] ev [None] = Inr ([Some (ExprValue c)], 0)
   \<and> addNonlinearCon sc [real_of_int NUM, c] lhs rhs None nlno isObj
       = Inr (0, emit_constraint (nvars sc) (ExprValue c) lhs rhs nlno isObj
                   (add_objective_var isObj sc), [real_of_int NUM, c])
   \<and> (nvars sc \<le> length point \<longrightarrow>
        addNonlinearCon sc [real_of_int NUM, c] lhs rhs (Some point) nlno isObj
          = Inr (c, emit_constraint (nvars sc) (ExprValue c) lhs rhs nlno isObj
                      (add_objective_var isObj sc), [real_of_int NUM, c]))
   \<and> evalExpr point (ExprValue c) = Inr c"
  by (simp add: call_defs step_defs opcode_defs)

theorem constant_stream_is_a_constant_node_witness:
  "nvars three_var_problem \<le> length [2, 3, 4 :: real]
   \<and> addNonlinearCon three_var_problem [real_of_int NUM, 7] 0 1 (Some [2, 3, 4]) 0 False
       = Inr (7, three_var_problem\<lparr>conss :=
                   [\<lparr>cons_name = NonlinearExp 0, cons_expr = ExprValue 7, cons_lhs = 0,
                     cons_rhs = 1, cons_linear = []\<rparr>]\<rparr>, [real_of_int NUM, 7])"
proof -
  have h: "nvars three_var_problem \<le> length [2, 3, 4 :: real]"
    by (simp add: three_var_problem_def)
  have e: "emit_constraint (nvars three_var_problem) (ExprValue 7) 0 1 0 False
             (add_objective_var False three_var_problem)
           = three_var_problem\<lparr>conss :=
                   [\<lparr>cons_name = NonlinearExp 0, cons_expr = ExprValue 7, cons_lhs = 0,
                     cons_rhs = 1, cons_linear = []\<rparr>]\<rparr>"
    by (simp add: emit_constraint_def add_objective_var_def three_var_problem_def)
  from h constant_stream_is_a_constant_node [of 7 "[]" three_var_problem 0 1 0 False "[2, 3, 4]"]
  have "addNonlinearCon three_var_problem [real_of_int NUM, 7] 0 1 (Some [2, 3, 4]) 0 False
          = Inr (7, emit_constraint (nvars three_var_problem) (ExprValue 7) 0 1 0 False
                      (add_objective_var False three_var_problem), [real_of_int NUM, 7])"
    by blast
  with h e show ?thesis by simp
qed

text \<open>
  C6. The stream \<open>[VAR, i]\<close> with a valid index does not enter the main loop either: the
  short cut stores in \<^verbatim>\<open>exp[0]\<close> the sum of one term over the variable with that index, with
  coefficient 1 and constant 0. With a validation point, the value returned is the
  value of the point at that index.
\<close>

theorem single_variable_stream_is_a_sum_of_one_term:
  assumes "0 \<le> c_int i" and "c_int i < int (nvars sc)" and "nvars sc \<le> length point"
  shows "decode (nvars sc) [real_of_int VAR, i]
           = Inr \<lparr>no_ops = 0, no_var = 1, varind = [c_int i], expvars = [ExprVar (c_int i)]\<rparr>
         \<and> short_circuit [real_of_int VAR, i] [ExprVar (c_int i)] [None]
           = Inr ([Some (ExprSum [ExprVar (c_int i)] [1] 0)], 0)
         \<and> addNonlinearCon sc [real_of_int VAR, i] lhs rhs (Some point) nlno isObj
           = Inr (point ! nat (c_int i),
                  emit_constraint (nvars sc) (ExprSum [ExprVar (c_int i)] [1] 0) lhs rhs nlno isObj
                    (add_objective_var isObj sc), [real_of_int VAR, i])
         \<and> evalExpr point (ExprSum [ExprVar (c_int i)] [1] 0) = Inr (point ! nat (c_int i))"
  using assms by (simp add: call_defs step_defs opcode_defs)

theorem single_variable_stream_is_a_sum_of_one_term_witness:
  "0 \<le> c_int 1 \<and> c_int 1 < int (nvars three_var_problem)
   \<and> nvars three_var_problem \<le> length [2, 3, 4 :: real]
   \<and> addNonlinearCon three_var_problem [real_of_int VAR, 1] 0 1 (Some [2, 3, 4]) 0 False
       = Inr (3, three_var_problem\<lparr>conss :=
                   [\<lparr>cons_name = NonlinearExp 0, cons_expr = ExprSum [ExprVar 1] [1] 0,
                     cons_lhs = 0, cons_rhs = 1, cons_linear = []\<rparr>]\<rparr>, [real_of_int VAR, 1])"
proof -
  have h: "0 \<le> c_int 1" "c_int 1 < int (nvars three_var_problem)"
    "nvars three_var_problem \<le> length [2, 3, 4 :: real]"
    by (simp_all add: three_var_problem_def)
  have e: "emit_constraint (nvars three_var_problem) (ExprSum [ExprVar 1] [1] 0) 0 1 0 False
             (add_objective_var False three_var_problem)
           = three_var_problem\<lparr>conss :=
                   [\<lparr>cons_name = NonlinearExp 0, cons_expr = ExprSum [ExprVar 1] [1] 0,
                     cons_lhs = 0, cons_rhs = 1, cons_linear = []\<rparr>]\<rparr>"
    by (simp add: emit_constraint_def add_objective_var_def three_var_problem_def)
  from single_variable_stream_is_a_sum_of_one_term [OF h, of 0 1 0 False]
  have "addNonlinearCon three_var_problem [real_of_int VAR, 1] 0 1 (Some [2, 3, 4]) 0 False
          = Inr ([2, 3, 4] ! nat (c_int 1),
                 emit_constraint (nvars three_var_problem) (ExprSum [ExprVar (c_int 1)] [1] 0)
                   0 1 0 False (add_objective_var False three_var_problem), [real_of_int VAR, 1])"
    by blast
  with h e show ?thesis by simp
qed

subsection \<open>The flag written to the instruction array\<close>

lemma pop_waiting_writes_flag:
  assumes "pop_waiting i s = Inr t" and "args1 s = EMPTY" and "0 \<le> psavprolst s"
    and "load ''savprolst'' (savprolst s) (psavprolst s) = Inr VAR"
  shows "instr t = (instr s)[i := 1] \<and> args1 t = VAR \<and> psavvarlst t = psavvarlst s - 1"
  using assms
  by (auto simp: pop_waiting_def Let_def bind_err_Inr_iff opcode_defs split: if_splits)

text \<open>
  C9. In \<open>x_i - x_j * x_k\<close>, the stream \<open>[VAR, i, VAR, j, VAR, k, MUL, f, SUB, g]\<close>, the first variable
  is saved for later and the subtraction takes it as its second operand; the call
  then leaves the value 1 in the slot after \<^verbatim>\<open>SUB\<close>, whatever \<open>g\<close> it held, so the caller's array
  has changed.
\<close>

theorem waiting_variable_flag_is_written_to_the_input:
  assumes "0 \<le> c_int i" and "c_int i < int (nvars sc)"
    and "0 \<le> c_int j" and "c_int j < int (nvars sc)"
    and "0 \<le> c_int k" and "c_int k < int (nvars sc)"
  shows "addNonlinearCon sc
           [real_of_int VAR, i, real_of_int VAR, j, real_of_int VAR, k,
            real_of_int MUL, f, real_of_int SUB, g] lhs rhs None nlno isObj
         = Inr (0,
             emit_constraint (nvars sc)
               (ExprSum [ExprProduct [ExprVar (c_int j), ExprVar (c_int k)] 1, ExprVar (c_int i)]
                  [-1, 1] 0) lhs rhs nlno isObj (add_objective_var isObj sc),
             [real_of_int VAR, i, real_of_int VAR, j, real_of_int VAR, k,
              real_of_int MUL, f, real_of_int SUB, 1])"
  using assms by (simp add: call_defs step_defs opcode_defs upt10 MAX_DEPTH_def)

theorem waiting_variable_flag_is_written_to_the_input_witness:
  "0 \<le> c_int 0 \<and> c_int 0 < int (nvars three_var_problem)
   \<and> 0 \<le> c_int 1 \<and> c_int 1 < int (nvars three_var_problem)
   \<and> 0 \<le> c_int 2 \<and> c_int 2 < int (nvars three_var_problem)
   \<and> (\<exists>fval sc. addNonlinearCon three_var_problem
           [real_of_int VAR, 0, real_of_int VAR, 1, real_of_int VAR, 2,
            real_of_int MUL, 0, real_of_int SUB, 0] 0 1 None 0 False
         = Inr (fval, sc,
             [real_of_int VAR, 0, real_of_int VAR, 1, real_of_int VAR, 2,
              real_of_int MUL, 0, real_of_int SUB, 1]))
   \<and> [real_of_int VAR, 0, real_of_int VAR, 1, real_of_int VAR, 2,
              real_of_int MUL, 0, real_of_int SUB, 1]
     \<noteq> [real_of_int VAR, 0, real_of_int VAR, 1, real_of_int VAR, 2,
            real_of_int MUL, 0, real_of_int SUB, 0]"
proof -
  have h: "0 \<le> c_int 0" "c_int 0 < int (nvars three_var_problem)"
    "0 \<le> c_int 1" "c_int 1 < int (nvars three_var_problem)"
    "0 \<le> c_int 2" "c_int 2 < int (nvars three_var_problem)"
    by (simp_all add: three_var_problem_def)
  have d: "[real_of_int VAR, 0, real_of_int VAR, 1, real_of_int VAR, 2,
              real_of_int MUL, 0, real_of_int SUB, 1]
     \<noteq> [real_of_int VAR, 0, real_of_int VAR, 1, real_of_int VAR, 2,
            real_of_int MUL, 0, real_of_int SUB, 0]"
    by simp
  from waiting_variable_flag_is_written_to_the_input [OF h, of 0 0 0 1 0 False]
  have "\<exists>fval sc. addNonlinearCon three_var_problem
           [real_of_int VAR, 0, real_of_int VAR, 1, real_of_int VAR, 2,
            real_of_int MUL, 0, real_of_int SUB, 0] 0 1 None 0 False
         = Inr (fval, sc,
             [real_of_int VAR, 0, real_of_int VAR, 1, real_of_int VAR, 2,
              real_of_int MUL, 0, real_of_int SUB, 1])"
    by blast
  with h d show ?thesis by blast
qed

subsection \<open>A failed validation is a warning\<close>

lemma addNonlinearCon_Inr:
  assumes "addNonlinearCon sc ins lhs rhs xval nlno isObj = Inr (fval, sc1, ins1)"
  shows "\<exists>s rt. get_exp s (expno s) = Inr rt \<and> validate (nvars sc) xval s = Inr fval
           \<and> sc1 = emit_constraint (nvars sc) rt lhs rhs nlno isObj (add_objective_var isObj sc)"
  using assms
  by (auto simp: addNonlinearCon_def bind_err_Inr_iff)

text \<open>
  C8. Take any call of \<^verbatim>\<open>addNonlinearCon\<close>, for a constraint or for the objective, that
  succeeds with a validation point and returns a value that differs from the expected
  one by more than the feasibility tolerance. The call has added to the problem the
  constraint over the compiled root (for the objective, with the new variable and its
  term), and the root is the expression whose value at the point was returned. None of
  the three places that make the call fails on the difference: the single constraint
  and the objective record a warning, clear the flag \<^verbatim>\<open>ts\<close> and return the problem as the
  call left it, and the loop over the cells does the same and goes on with the next
  cell.
\<close>

theorem failed_validation_is_not_fatal:
  assumes "addNonlinearCon (problem m) ins lhs rhs (Some point) nlno isObj = Inr (fval, sc, ins1)"
    and "feastol (problem m) < \<bar>fval - expected\<bar>"
  shows "(\<exists>rt. conss sc = conss (problem m) @
                  [\<lparr>cons_name = (if isObj then NonlinearObj nlno else NonlinearExp nlno),
                    cons_expr = rt, cons_lhs = lhs, cons_rhs = rhs,
                    cons_linear = (if isObj then [(int (nvars (problem m)), -1)] else [])\<rparr>]
              \<and> evalExpr point rt = Inr fval)
         \<and> nvars sc = (if isObj then nvars (problem m) + 1 else nvars (problem m))
         \<and> (\<not> isObj \<and> nlno = 0 \<longrightarrow>
              add_single_constraint m ins lhs rhs (Some point) expected
                = Inr (m\<lparr>problem := sc,
                         warnings := warnings m @ [FailedValidation 0 \<bar>fval - expected\<bar>],
                         ts := 0\<rparr>, ins1))
         \<and> (isObj \<and> nlno = 0 \<and> lhs = 0 \<and> rhs = 0 \<longrightarrow>
              add_objective m ins (Some point) expected
                = Inr (m\<lparr>problem := sc,
                         warnings := warnings m @ [FailedObjectiveValidation \<bar>fval - expected\<bar>],
                         ts := 0\<rparr>, ins1))
         \<and> (\<not> isObj \<and> load ''conval'' conval (int nlno) = Inr expected \<longrightarrow>
              add_cell_constraints m ((ins, lhs, rhs) # cells) (Some point) conval nlno
                = bind_err
                    (add_cell_constraints
                       (m\<lparr>problem := sc,
                          warnings := warnings m @ [FailedValidation nlno \<bar>fval - expected\<bar>],
                          ts := 0\<rparr>) cells (Some point) conval (nlno + 1))
                    (\<lambda>(m3, inss). Inr (m3, ins1 # inss)))"
proof -
  from addNonlinearCon_Inr [OF assms(1)] obtain s rt where
    rt: "get_exp s (expno s) = Inr rt"
    and v: "validate (nvars (problem m)) (Some point) s = Inr fval"
    and sc: "sc = emit_constraint (nvars (problem m)) rt lhs rhs nlno isObj
                    (add_objective_var isObj (problem m))"
    by blast
  from v rt have ev: "evalExpr point rt = Inr fval"
    by (simp add: validate_def split: if_splits)
  from sc have tol: "feastol sc = feastol (problem m)"
    and nv: "nvars sc = (if isObj then nvars (problem m) + 1 else nvars (problem m))"
    and cs: "conss sc = conss (problem m) @
               [\<lparr>cons_name = (if isObj then NonlinearObj nlno else NonlinearExp nlno),
                 cons_expr = rt, cons_lhs = lhs, cons_rhs = rhs,
                 cons_linear = (if isObj then [(int (nvars (problem m)), -1)] else [])\<rparr>]"
    by (simp_all add: emit_constraint_def add_objective_var_def)
  from assms(2) tol have pos: "SCIPisFeasPositive sc \<bar>fval - expected\<bar>"
    by (simp add: SCIPisFeasPositive_def)
  have single: "add_single_constraint m ins lhs rhs (Some point) expected
                = Inr (m\<lparr>problem := sc,
                         warnings := warnings m @ [FailedValidation 0 \<bar>fval - expected\<bar>],
                         ts := 0\<rparr>, ins1)"
    if "\<not> isObj" "nlno = 0"
    using that assms(1) pos by (simp add: add_single_constraint_def)
  have objective: "add_objective m ins (Some point) expected
                = Inr (m\<lparr>problem := sc,
                         warnings := warnings m @ [FailedObjectiveValidation \<bar>fval - expected\<bar>],
                         ts := 0\<rparr>, ins1)"
    if "isObj" "nlno = 0" "lhs = 0" "rhs = 0"
    using that assms(1) pos by (simp add: add_objective_def)
  have cell: "add_cell_constraints m ((ins, lhs, rhs) # cells) (Some point) conval nlno
                = bind_err
                    (add_cell_constraints
                       (m\<lparr>problem := sc,
                          warnings := warnings m @ [FailedValidation nlno \<bar>fval - expected\<bar>],
                          ts := 0\<rparr>) cells (Some point) conval (nlno + 1))
                    (\<lambda>(m3, inss). Inr (m3, ins1 # inss))"
    if "\<not> isObj" "load ''conval'' conval (int nlno) = Inr expected"
    using that assms(1) pos by simp
  from cs ev nv single objective cell show ?thesis
    by blast
qed

text \<open>
  The witness: \<open>x0 + 3\<close> at \<open>x0 = 2\<close> is 5 and the caller expects 7, for a single constraint, for
  the objective, and for the first of two cells, the second being \<open>x1\<close> with the expected
  value 3.
\<close>

theorem failed_validation_is_not_fatal_witness:
  "addNonlinearCon (problem fresh_mexstate) sum_example 0 10 (Some [2, 3, 4]) 0 False
     = Inr (5, three_var_problem\<lparr>conss :=
                 [\<lparr>cons_name = NonlinearExp 0, cons_expr = ExprSum [ExprVar 0] [1] 3,
                   cons_lhs = 0, cons_rhs = 10, cons_linear = []\<rparr>]\<rparr>, sum_example)
   \<and> feastol (problem fresh_mexstate) < \<bar>5 - 7 :: real\<bar>
   \<and> add_single_constraint fresh_mexstate sum_example 0 10 (Some [2, 3, 4]) 7
     = Inr (\<lparr>problem = three_var_problem\<lparr>conss :=
                 [\<lparr>cons_name = NonlinearExp 0, cons_expr = ExprSum [ExprVar 0] [1] 3,
                   cons_lhs = 0, cons_rhs = 10, cons_linear = []\<rparr>]\<rparr>,
              warnings = [FailedValidation 0 2], ts = 0\<rparr>, sum_example)
   \<and> addNonlinearCon (problem fresh_mexstate) sum_example 0 0 (Some [2, 3, 4]) 0 True
     = Inr (5, three_var_problem\<lparr>nvars := 4, conss :=
                 [\<lparr>cons_name = NonlinearObj 0, cons_expr = ExprSum [ExprVar 0] [1] 3,
                   cons_lhs = 0, cons_rhs = 0, cons_linear = [(3, -1)]\<rparr>]\<rparr>, sum_example)
   \<and> add_objective fresh_mexstate sum_example (Some [2, 3, 4]) 7
     = Inr (\<lparr>problem = three_var_problem\<lparr>nvars := 4, conss :=
                 [\<lparr>cons_name = NonlinearObj 0, cons_expr = ExprSum [ExprVar 0] [1] 3,
                   cons_lhs = 0, cons_rhs = 0, cons_linear = [(3, -1)]\<rparr>]\<rparr>,
              warnings = [FailedObjectiveValidation 2], ts = 0\<rparr>, sum_example)
   \<and> load ''conval'' [7, 3 :: real] (int 0) = Inr 7
   \<and> add_cell_constraints fresh_mexstate
       [(sum_example, 0, 10), ([real_of_int VAR, 1], 0, 5)] (Some [2, 3, 4]) [7, 3] 0
     = Inr (\<lparr>problem = three_var_problem\<lparr>conss :=
                 [\<lparr>cons_name = NonlinearExp 0, cons_expr = ExprSum [ExprVar 0] [1] 3,
                   cons_lhs = 0, cons_rhs = 10, cons_linear = []\<rparr>,
                  \<lparr>cons_name = NonlinearExp 1, cons_expr = ExprSum [ExprVar 1] [1] 0,
                   cons_lhs = 0, cons_rhs = 5, cons_linear = []\<rparr>]\<rparr>,
              warnings = [FailedValidation 0 2], ts = 0\<rparr>,
            [sum_example, [real_of_int VAR, 1]])"
proof -
  let ?m = "fresh_mexstate"
  let ?cA = "\<lparr>cons_name = NonlinearExp 0, cons_expr = ExprSum [ExprVar 0] [1] 3,
                   cons_lhs = 0, cons_rhs = 10, cons_linear = []\<rparr>"
  let ?scA = "three_var_problem\<lparr>conss := [?cA]\<rparr>"
  let ?scO = "three_var_problem\<lparr>nvars := 4, conss :=
                 [\<lparr>cons_name = NonlinearObj 0, cons_expr = ExprSum [ExprVar 0] [1] 3,
                   cons_lhs = 0, cons_rhs = 0, cons_linear = [(3, -1)]\<rparr>]\<rparr>"
  have a: "addNonlinearCon (problem ?m) sum_example 0 10 (Some [2, 3, 4]) 0 False
             = Inr (5, ?scA, sum_example)"
    by (simp add: fresh_mexstate_def sum_example_def three_var_problem_def call_defs step_defs
        opcode_defs upt6 emit_constraint_def add_objective_var_def)
  have o: "addNonlinearCon (problem ?m) sum_example 0 0 (Some [2, 3, 4]) 0 True
             = Inr (5, ?scO, sum_example)"
    by (simp add: fresh_mexstate_def sum_example_def three_var_problem_def call_defs step_defs
        opcode_defs upt6 emit_constraint_def add_objective_var_def)
  have b: "feastol (problem ?m) < \<bar>5 - 7 :: real\<bar>"
    by (simp add: fresh_mexstate_def three_var_problem_def)
  have l: "load ''conval'' [7, 3 :: real] (int 0) = Inr 7"
    by (simp add: load_def)
  have w: "?m\<lparr>problem := sc, warnings := warnings ?m @ ws, ts := 0\<rparr>
             = \<lparr>problem = sc, warnings = ws, ts = 0\<rparr>" for sc ws
    by (simp add: fresh_mexstate_def)
  have m': "?m\<lparr>problem := ?scA, warnings := warnings ?m @ [FailedValidation 0 \<bar>5 - 7\<bar>], ts := 0\<rparr>
              = \<lparr>problem = ?scA, warnings = [FailedValidation 0 2], ts = 0\<rparr>"
    by (simp add: fresh_mexstate_def)
  note ta = failed_validation_is_not_fatal [OF a b, of "[7, 3]" "[([real_of_int VAR, 1], 0, 5)]"]
  note tb = failed_validation_is_not_fatal [OF o b]
  from ta have single: "add_single_constraint ?m sum_example 0 10 (Some [2, 3, 4]) 7
             = Inr (\<lparr>problem = ?scA, warnings = [FailedValidation 0 2], ts = 0\<rparr>, sum_example)"
    by (simp add: w)
  from tb have objective: "add_objective ?m sum_example (Some [2, 3, 4]) 7
             = Inr (\<lparr>problem = ?scO, warnings = [FailedObjectiveValidation 2], ts = 0\<rparr>, sum_example)"
    by (simp add: w)
  have rest: "add_cell_constraints \<lparr>problem = ?scA, warnings = [FailedValidation 0 2], ts = 0\<rparr>
                [([real_of_int VAR, 1], 0, 5)] (Some [2, 3, 4]) [7, 3] (0 + 1)
              = Inr (\<lparr>problem = three_var_problem\<lparr>conss := [?cA,
                         \<lparr>cons_name = NonlinearExp 1, cons_expr = ExprSum [ExprVar 1] [1] 0,
                           cons_lhs = 0, cons_rhs = 5, cons_linear = []\<rparr>]\<rparr>,
                       warnings = [FailedValidation 0 2], ts = 0\<rparr>, [[real_of_int VAR, 1]])"
    by (simp add: three_var_problem_def call_defs step_defs opcode_defs
        emit_constraint_def add_objective_var_def SCIPisFeasPositive_def)
  from ta l have "add_cell_constraints ?m
       [(sum_example, 0, 10), ([real_of_int VAR, 1], 0, 5)] (Some [2, 3, 4]) [7, 3] 0
     = bind_err (add_cell_constraints
                   (?m\<lparr>problem := ?scA,
                       warnings := warnings ?m @ [FailedValidation 0 \<bar>5 - 7\<bar>], ts := 0\<rparr>)
                   [([real_of_int VAR, 1], 0, 5)] (Some [2, 3, 4]) [7, 3] (0 + 1))
                (\<lambda>(m3, inss). Inr (m3, sum_example # inss))"
    by blast
  then have cells: "add_cell_constraints ?m
       [(sum_example, 0, 10), ([real_of_int VAR, 1], 0, 5)] (Some [2, 3, 4]) [7, 3] 0
     = Inr (\<lparr>problem = three_var_problem\<lparr>conss := [?cA,
                         \<lparr>cons_name = NonlinearExp 1, cons_expr = ExprSum [ExprVar 1] [1] 0,
                           cons_lhs = 0, cons_rhs = 5, cons_linear = []\<rparr>]\<rparr>,
              warnings = [FailedValidation 0 2], ts = 0\<rparr>, [sum_example, [real_of_int VAR, 1]])"
    unfolding m' rest by (simp only: bind_err_simps prod.case)
  from a b single o objective l cells show ?thesis
    by blast
qed

subsection \<open>The pre-scan has no failure for a truncated stream\<close>

lemma count_pass_snd:
  "snd (count_pass st xs a b) = b + snd (count_pass st xs 0 0)"
proof (induction xs arbitrary: st a b)
  case Nil
  show ?case by simp
next
  case (Cons x xs)
  show ?case
  proof (cases "st = READ")
    case True
    show ?thesis
      using Cons.IH [of OTHER "if real_of_int EXP < x then a + 1 else a"
                        "if x = real_of_int VAR then b + 1 else b"]
        Cons.IH [of OTHER "if real_of_int EXP < x then 0 + 1 else 0"
                        "if x = real_of_int VAR then 0 + 1 else 0"]
        True
      by simp
  next
    case False
    show ?thesis
      using Cons.IH [of READ a b] Cons.IH [of st a b] False by simp
  qed
qed

lemma index_pass_total:
  assumes "st = READ \<or> st = OTHER \<or> st = VAR"
    and "j + snd (count_pass (if st = READ then READ else OTHER) xs 0 0)
           + (if st = VAR \<and> xs \<noteq> [] then 1 else 0) \<le> length vi"
  shows "\<exists>vi'. index_pass st xs j vi = Inr vi' \<and> length vi' = length vi"
  using assms
proof (induction xs arbitrary: st j vi)
  case Nil
  show ?case by simp
next
  case (Cons x xs)
  from Cons.prems(1) consider (r) "st = READ" | (o) "st = OTHER" | (v) "st = VAR"
    by blast
  then show ?case
  proof cases
    case r
    show ?thesis
    proof (cases "x = real_of_int VAR")
      case True
      have "snd (count_pass OTHER xs 0 1) = 1 + snd (count_pass OTHER xs 0 0)"
        by (rule count_pass_snd)
      with Cons.prems(2) r True
      have "j + snd (count_pass (if VAR = READ then READ else OTHER) xs 0 0)
              + (if VAR = VAR \<and> xs \<noteq> [] then 1 else 0) \<le> length vi"
        by (simp add: opcode_defs)
      from Cons.IH [of VAR j vi, OF _ this] r True show ?thesis
        by (simp add: opcode_defs)
    next
      case False
      have "snd (count_pass OTHER xs (if real_of_int EXP < x then 0 + 1 else 0) 0)
              = 0 + snd (count_pass OTHER xs 0 0)"
        by (rule count_pass_snd)
      with Cons.prems(2) r False
      have "j + snd (count_pass (if OTHER = READ then READ else OTHER) xs 0 0)
              + (if OTHER = VAR \<and> xs \<noteq> [] then 1 else 0) \<le> length vi"
        by (simp add: opcode_defs)
      from Cons.IH [of OTHER j vi, OF _ this] r False show ?thesis
        by (simp add: opcode_defs)
    qed
  next
    case o
    with Cons.prems(2)
    have "j + snd (count_pass (if READ = READ then READ else OTHER) xs 0 0)
            + (if READ = VAR \<and> xs \<noteq> [] then 1 else 0) \<le> length vi"
      by (simp add: opcode_defs)
    from Cons.IH [of READ j vi, OF _ this] o show ?thesis
      by (simp add: opcode_defs)
  next
    case v
    with Cons.prems(2) have lt: "j < length vi"
      and le: "Suc j + snd (count_pass READ xs 0 0) \<le> length vi"
      by (simp_all add: opcode_defs)
    from le
    have "Suc j + snd (count_pass (if READ = READ then READ else OTHER) xs 0 0)
            + (if READ = VAR \<and> xs \<noteq> [] then 1 else 0) \<le> length (vi[j := c_int x])"
      by (simp add: opcode_defs)
    from Cons.IH [of READ "Suc j" "vi[j := c_int x]", OF _ this] v lt show ?thesis
      by (simp add: opcode_defs store_def)
  qed
qed

lemma create_expvars_eq:
  "create_expvars nv ks
     = (if \<forall>k\<in>set ks. 0 \<le> k \<and> k < int nv then Inr (map ExprVar ks) else Inl AssertionFailed)"
  by (induction ks) auto

text \<open>
  C3 (as stated, refuted). The claim says that the pre-scan fails when the stream ends
  after an opcode that expects an argument. The stream \<open>[VAR]\<close> is decoded without a
  failure, the missing index read as the zero that \<^verbatim>\<open>mxCalloc\<close> left in \<^verbatim>\<open>varind\<close>, and so is
  \<open>[VAR, 0, NUM]\<close>; the call as a whole does not report a malformed stream either, it reads
  the root \<^verbatim>\<open>exp[0]\<close> that no operator has written.
\<close>

theorem truncated_stream_is_rejected_counterexample:
  "decode 1 [real_of_int VAR]
     = Inr \<lparr>no_ops = 0, no_var = 1, varind = [0], expvars = [ExprVar 0]\<rparr>
   \<and> decode 1 [real_of_int VAR, 0, real_of_int NUM]
     = Inr \<lparr>no_ops = 0, no_var = 1, varind = [0], expvars = [ExprVar 0]\<rparr>
   \<and> addNonlinearCon one_var_problem [real_of_int VAR] 0 0 None 0 False
     = Inl (MemoryFault ''exp'' 0)"
  by (simp add: one_var_problem_def call_defs step_defs opcode_defs upt_rec)

text \<open>
  C3 (amended). The pre-scan has no failure for the shape of the stream: for every
  instruction array, truncated or not, the two passes run to the end, the second one
  fills an index array of the length that the first one counted, and the decoding
  succeeds with these counts and indices unless an index is outside the variables of
  the problem, the one failure there is (the assertion of line 191).
\<close>

theorem prescan_completes_on_every_stream:
  "\<exists>vi. index_pass READ ins 0 (replicate (snd (count_pass READ ins 0 0)) 0) = Inr vi
        \<and> length vi = snd (count_pass READ ins 0 0)
        \<and> decode nv ins
            = (if \<forall>k\<in>set vi. 0 \<le> k \<and> k < int nv
               then Inr \<lparr>no_ops = fst (count_pass READ ins 0 0),
                         no_var = snd (count_pass READ ins 0 0),
                         varind = vi, expvars = map ExprVar vi\<rparr>
               else Inl AssertionFailed)"
proof -
  let ?n = "snd (count_pass READ ins 0 0)"
  have "0 + snd (count_pass (if READ = READ then READ else OTHER) ins 0 0)
          + (if READ = VAR \<and> ins \<noteq> [] then 1 else 0) \<le> length (replicate ?n (0::int))"
    by (simp add: opcode_defs)
  from index_pass_total [of READ 0 ins "replicate ?n 0", OF _ this]
  obtain vi where vi: "index_pass READ ins 0 (replicate ?n 0) = Inr vi" and len: "length vi = ?n"
    by auto
  have "decode nv ins
          = (if \<forall>k\<in>set vi. 0 \<le> k \<and> k < int nv
             then Inr \<lparr>no_ops = fst (count_pass READ ins 0 0), no_var = ?n,
                       varind = vi, expvars = map ExprVar vi\<rparr>
             else Inl AssertionFailed)"
    using vi by (simp add: decode_def create_expvars_eq split_beta)
  with vi len show ?thesis by blast
qed

text \<open>
  The witness: the truncated stream \<open>[VAR, 2, NUM, 3, ADD, 0, VAR]\<close> over three variables is
  decoded with two variables, the second index being 0, and over two variables it fails
  the assertion for the index 2.
\<close>

theorem prescan_completes_on_every_stream_witness:
  "index_pass READ [real_of_int VAR, 2, real_of_int NUM, 3, real_of_int ADD, 0, real_of_int VAR] 0
       (replicate 2 0) = Inr [2, 0]
   \<and> 0 \<le> (2::int) \<and> (2::int) < int 3 \<and> 0 \<le> (0::int) \<and> (0::int) < int 3
   \<and> decode 3 [real_of_int VAR, 2, real_of_int NUM, 3, real_of_int ADD, 0, real_of_int VAR]
       = Inr \<lparr>no_ops = 1, no_var = 2, varind = [2, 0], expvars = [ExprVar 2, ExprVar 0]\<rparr>
   \<and> decode 2 [real_of_int VAR, 2, real_of_int NUM, 3, real_of_int ADD, 0, real_of_int VAR]
       = Inl AssertionFailed"
proof -
  let ?ins = "[real_of_int VAR, 2, real_of_int NUM, 3, real_of_int ADD, 0, real_of_int VAR]"
  have c: "count_pass READ ?ins 0 0 = (1, 2)"
    by (simp add: opcode_defs)
  have i: "index_pass READ ?ins 0 (replicate 2 0) = Inr [2, 0]"
    by (simp add: opcode_defs store_def numeral_2_eq_2)
  have q: "0 \<le> (2::int) \<and> (2::int) < int 3 \<and> 0 \<le> (0::int) \<and> (0::int) < int 3"
    by simp
  from prescan_completes_on_every_stream [of ?ins 3] obtain vi where
    a: "index_pass READ ?ins 0 (replicate (snd (count_pass READ ?ins 0 0)) 0) = Inr vi"
    and d: "decode 3 ?ins
            = (if \<forall>k\<in>set vi. 0 \<le> k \<and> k < int 3
               then Inr \<lparr>no_ops = fst (count_pass READ ?ins 0 0),
                         no_var = snd (count_pass READ ?ins 0 0),
                         varind = vi, expvars = map ExprVar vi\<rparr>
               else Inl AssertionFailed)"
    by blast
  from a have vi: "vi = [2, 0]"
    unfolding c snd_conv i by simp
  from d have d3: "decode 3 ?ins
       = Inr \<lparr>no_ops = 1, no_var = 2, varind = [2, 0], expvars = [ExprVar 2, ExprVar 0]\<rparr>"
    unfolding vi c by simp
  from prescan_completes_on_every_stream [of ?ins 2] obtain vj where
    a2: "index_pass READ ?ins 0 (replicate (snd (count_pass READ ?ins 0 0)) 0) = Inr vj"
    and e: "decode 2 ?ins
            = (if \<forall>k\<in>set vj. 0 \<le> k \<and> k < int 2
               then Inr \<lparr>no_ops = fst (count_pass READ ?ins 0 0),
                         no_var = snd (count_pass READ ?ins 0 0),
                         varind = vj, expvars = map ExprVar vj\<rparr>
               else Inl AssertionFailed)"
    by blast
  from a2 have vj: "vj = [2, 0]"
    unfolding c snd_conv i by simp
  from e have d2: "decode 2 ?ins = Inl AssertionFailed"
    unfolding vj c by simp
  from i q d3 d2 show ?thesis by blast
qed

subsection \<open>The depth guard\<close>

lemma upt_two_more: "[0..<Suc (Suc m)] = [0..<m] @ [m, Suc m]"
  by simp

lemma length_concat_pairs: "length (concat (replicate n [a, b])) = 2 * n"
  by (induction n) simp_all

lemma nth_concat_pairs:
  "m < n \<Longrightarrow> (concat (replicate n [a, b]) @ r) ! (2 * m) = a"
proof (induction n arbitrary: m)
  case 0
  then show ?case by simp
next
  case (Suc n)
  show ?case
  proof (cases m)
    case 0
    then show ?thesis by simp
  next
    case (Suc m')
    with Suc.prems have "m' < n" by simp
    from Suc.IH [OF this] Suc show ?thesis by simp
  qed
qed

lemma push_var_at_capacity:
  assumes "psavvarlst s = MAX_DEPTH - 1" and "length (savvarlst s) = nat MAX_DEPTH"
  shows "push_var v s = Inl (MemoryFault ''savvarlst'' MAX_DEPTH)"
  using assms by (simp add: push_var_def store_def MAX_DEPTH_def)

lemma push_exp_at_capacity:
  assumes "psavexplst s = MAX_DEPTH - 1" and "length (savexplst s) = nat MAX_DEPTH"
  shows "push_exp s = Inl (MemoryFault ''savexplst'' MAX_DEPTH)"
  using assms by (simp add: push_exp_def store_def MAX_DEPTH_def)

lemma waiting_vars_init:
  assumes "ins ! 0 = real_of_int VAR" and "ins ! 2 = real_of_int VAR"
  shows "\<exists>t. run ev n [0, 1, 2, 3] (init_state ins ex) = Inr t \<and> waiting_vars ins 0 t"
  using assms
  by (simp add: waiting_vars_def init_state_def step_def step_var_def opcode_defs MAX_DEPTH_def)

lemma waiting_vars_step:
  assumes "waiting_vars ins k s" and "k < 512"
    and "ins ! (2 * k + 4) = real_of_int VAR"
    and "ins ! (2 * k + 2) = real_of_int VAR"
    and "ins ! (2 * k) = real_of_int VAR"
  shows "\<exists>t. run ev n [2 * k + 4, 2 * k + 5] s = Inr t \<and> waiting_vars ins (Suc k) t"
proof -
  let ?s1 = "s\<lparr>state := VAR\<rparr>"
  have 1: "step ev n (2 * k + 4) s = Inr ?s1"
    using assms(1,3) by (simp add: waiting_vars_def step_def)
  let ?s2 = "?s1\<lparr>varcnt := varcnt s + 1, state := READ\<rparr>"
  have sv: "saved_var_number (2 * k + 5) ?s2 = Inr (varcnt s + 1 - 2)"
    using assms(1,4,5) by (simp add: saved_var_number_def waiting_vars_def)
  have pv: "\<exists>t. push_var (varcnt s + 1 - 2) ?s2 = Inr t \<and> waiting_vars ins (Suc k) (t\<lparr>args0 := args1 t, args1 := VAR\<rparr>)"
    using assms(1,2)
    by (simp add: push_var_def store_def waiting_vars_def MAX_DEPTH_def)
  then obtain t where t: "push_var (varcnt s + 1 - 2) ?s2 = Inr t"
    and w: "waiting_vars ins (Suc k) (t\<lparr>args0 := args1 t, args1 := VAR\<rparr>)"
    by blast
  have 2: "step ev n (2 * k + 5) ?s1 = Inr (t\<lparr>args0 := args1 t, args1 := VAR\<rparr>)"
    using assms(1,2) sv t
    by (simp add: step_def step_var_def Let_def waiting_vars_def opcode_defs MAX_DEPTH_def)
  from 1 2 w show ?thesis by simp
qed

lemma waiting_vars_reached:
  assumes "\<forall>m<515. ins ! (2 * m) = real_of_int VAR" and "k \<le> 512"
  shows "\<exists>t. run ev n [0..<2 * k + 4] (init_state ins ex) = Inr t \<and> waiting_vars ins k t"
  using assms(2)
proof (induction k)
  case 0
  have "ins ! 0 = real_of_int VAR" "ins ! 2 = real_of_int VAR"
    using assms(1) [rule_format, of 0] assms(1) [rule_format, of 1] by simp_all
  from waiting_vars_init [OF this, of ev n ex]
  have r: "\<exists>t. run ev n [0, 1, 2, 3] (init_state ins ex) = Inr t \<and> waiting_vars ins 0 t" .
  have "[0..<4] = [0, 1, 2, 3]"
    by code_simp
  then have "[0..<2 * 0 + 4] = [0, 1, 2, 3]"
    by simp
  with r show ?case by (simp only:)
next
  case (Suc k)
  then obtain s where s: "run ev n [0..<2 * k + 4] (init_state ins ex) = Inr s"
    and w: "waiting_vars ins k s"
    by auto
  from Suc.prems have b: "k + 2 < 515" "k + 1 < 515" "k < 515"
    by simp_all
  have e: "2 * (k + 2) = 2 * k + 4" "2 * (k + 1) = 2 * k + 2"
    by arith+
  have v1: "ins ! (2 * k + 4) = real_of_int VAR"
    using assms(1) [rule_format, OF b(1)] unfolding e .
  have v2: "ins ! (2 * k + 2) = real_of_int VAR"
    using assms(1) [rule_format, OF b(2)] unfolding e .
  have v3: "ins ! (2 * k) = real_of_int VAR"
    using assms(1) [rule_format, OF b(3)] .
  note v = v1 v2 v3
  from Suc.prems have "k < 512" by simp
  from waiting_vars_step [OF w this v, of ev n]
  obtain t where t: "run ev n [2 * k + 4, 2 * k + 5] s = Inr t" and wt: "waiting_vars ins (Suc k) t"
    by blast
  have a: "2 * Suc k + 4 = Suc (Suc (2 * k + 4))" and b: "Suc (2 * k + 4) = 2 * k + 5"
    by arith+
  have "[0..<Suc (Suc (2 * k + 4))] = [0..<2 * k + 4] @ [2 * k + 4, Suc (2 * k + 4)]"
    by (rule upt_two_more)
  then have "[0..<2 * Suc k + 4] = [0..<2 * k + 4] @ [2 * k + 4, Suc (2 * k + 4)]"
    unfolding a [symmetric] .
  then have "[0..<2 * Suc k + 4] = [0..<2 * k + 4] @ [2 * k + 4, 2 * k + 5]"
    unfolding b .
  with s t have "run ev n [0..<2 * Suc k + 4] (init_state ins ex) = Inr t"
    by (simp add: run_append)
  with wt show ?case by blast
qed

lemma waiting_vars_full:
  assumes "waiting_vars ins 512 s"
    and "ins ! 1028 = real_of_int VAR" and "ins ! 1026 = real_of_int VAR"
    and "ins ! 1024 = real_of_int VAR"
  shows "step ev n 1028 s = Inr (s\<lparr>state := VAR\<rparr>)"
    and "\<not> MAX_DEPTH \<le> psavvarlst (s\<lparr>state := VAR\<rparr>)"
    and "psavvarlst (s\<lparr>state := VAR\<rparr>) + 1 = int (length (savvarlst (s\<lparr>state := VAR\<rparr>)))"
    and "step ev n 1029 (s\<lparr>state := VAR\<rparr>) = Inl (MemoryFault ''savvarlst'' MAX_DEPTH)"
proof -
  show "step ev n 1028 s = Inr (s\<lparr>state := VAR\<rparr>)"
    using assms(1,2) by (simp add: waiting_vars_def step_def)
  show "\<not> MAX_DEPTH \<le> psavvarlst (s\<lparr>state := VAR\<rparr>)"
    using assms(1) by (simp add: waiting_vars_def MAX_DEPTH_def)
  show "psavvarlst (s\<lparr>state := VAR\<rparr>) + 1 = int (length (savvarlst (s\<lparr>state := VAR\<rparr>)))"
    using assms(1) by (simp add: waiting_vars_def MAX_DEPTH_def)
  let ?s2 = "s\<lparr>state := VAR, varcnt := varcnt s + 1, state := READ\<rparr>"
  have sv: "saved_var_number 1029 ?s2 = Inr (varcnt s + 1 - 2)"
    using assms(1,3,4) by (simp add: saved_var_number_def waiting_vars_def)
  have pv: "push_var (varcnt s + 1 - 2) ?s2 = Inl (MemoryFault ''savvarlst'' MAX_DEPTH)"
    using assms(1) by (intro push_var_at_capacity) (simp_all add: waiting_vars_def MAX_DEPTH_def)
  show "step ev n 1029 (s\<lparr>state := VAR\<rparr>) = Inl (MemoryFault ''savvarlst'' MAX_DEPTH)"
    using assms(1) sv pv
    by (simp add: step_def step_var_def Let_def waiting_vars_def opcode_defs MAX_DEPTH_def)
qed


lemma decode_nested_difference_count:
  "count_pass READ (concat (replicate n [real_of_int VAR, 0]) @ r) a b = count_pass READ r a (b + n)"
  by (induction n arbitrary: b) (simp_all add: opcode_defs)

lemma count_pass_subs:
  "count_pass READ (concat (replicate n [real_of_int SUB, 0])) a b = (a + n, b)"
  by (induction n arbitrary: a) (simp_all add: opcode_defs)

lemma index_pass_vars:
  "j + n \<le> N \<Longrightarrow>
   index_pass READ (concat (replicate n [real_of_int VAR, 0]) @ r) j (replicate N 0)
     = index_pass READ r (j + n) (replicate N 0)"
proof (induction n arbitrary: j)
  case 0
  show ?case by simp
next
  case (Suc n)
  from Suc.prems have j: "j < N" and le: "Suc j + n \<le> N"
    by simp_all
  from j have u: "(replicate N (0::int))[j := 0] = replicate N 0"
    by (simp add: list_eq_iff_nth_eq nth_list_update)
  from Suc.IH [OF le] j u show ?case
    by (simp add: opcode_defs store_def)
qed

lemma index_pass_subs:
  "index_pass READ (concat (replicate n [real_of_int SUB, 0])) j vi = Inr vi"
  by (induction n) (simp_all add: opcode_defs)

lemma decode_nested_difference:
  assumes "0 < nv"
  shows "decode nv (nested_difference n)
           = Inr \<lparr>no_ops = n - 1, no_var = n, varind = replicate n 0,
                   expvars = replicate n (ExprVar 0)\<rparr>"
proof -
  have c: "count_pass READ (nested_difference n) 0 0 = (n - 1, n)"
    by (simp add: nested_difference_def decode_nested_difference_count count_pass_subs)
  have i: "index_pass READ (nested_difference n) 0 (replicate n 0) = Inr (replicate n 0)"
    using index_pass_vars [of 0 n n "concat (replicate (n - 1) [real_of_int SUB, 0])"]
    by (simp add: nested_difference_def index_pass_subs)
  from assms have e: "create_expvars nv (replicate n 0) = Inr (replicate n (ExprVar 0))"
    by (simp add: create_expvars_eq)
  from c i e show ?thesis
    by (simp add: decode_def)
qed

lemma nested_difference_nth:
  "m < n \<Longrightarrow> nested_difference n ! (2 * m) = real_of_int VAR"
  by (simp add: nested_difference_def nth_concat_pairs)

lemma nested_difference_length:
  "0 < n \<Longrightarrow> length (nested_difference n) = 4 * n - 2"
  by (simp add: nested_difference_def length_concat_pairs)

lemma nested_difference_runs_into_capacity:
  "\<exists>s. run ev 2058 [0..<1029] (init_state (nested_difference 515) ex) = Inr s
       \<and> state s = VAR
       \<and> \<not> MAX_DEPTH \<le> psavvarlst s
       \<and> psavvarlst s + 1 = int (length (savvarlst s))
       \<and> int (length (savvarlst s)) = MAX_DEPTH
       \<and> step ev 2058 1029 s = Inl (MemoryFault ''savvarlst'' MAX_DEPTH)"
proof -
  let ?ins = "nested_difference 515"
  have v: "\<forall>m<515. ?ins ! (2 * m) = real_of_int VAR"
    by (simp add: nested_difference_nth)
  from waiting_vars_reached [OF v, of 512 ev 2058 ex]
  obtain t where t: "run ev 2058 [0..<1028] (init_state ?ins ex) = Inr t"
    and w: "waiting_vars ?ins 512 t"
    by auto
  have e: "?ins ! 1028 = real_of_int VAR" "?ins ! 1026 = real_of_int VAR"
    "?ins ! 1024 = real_of_int VAR"
    using v [rule_format, of 514] v [rule_format, of 513] v [rule_format, of 512] by simp_all
  note f = waiting_vars_full [OF w e]
  have "[0..<1029] = [0..<1028] @ [1028]"
    using upt_Suc_append [of 0 1028] by simp
  with t f(1) have "run ev 2058 [0..<1029] (init_state ?ins ex) = Inr (t\<lparr>state := VAR\<rparr>)"
    by (simp add: run_append)
  moreover from w have "int (length (savvarlst (t\<lparr>state := VAR\<rparr>))) = MAX_DEPTH"
    by (simp add: waiting_vars_def MAX_DEPTH_def)
  ultimately show ?thesis
    using f(2,3,4) by auto
qed

lemma nested_difference_call:
  assumes "0 < nvars sc"
  shows "addNonlinearCon sc (nested_difference 515) lhs rhs xval nlno isObj
           = Inl (MemoryFault ''savvarlst'' MAX_DEPTH)"
proof -
  let ?ins = "nested_difference 515"
  let ?ev = "replicate 515 (ExprVar 0)"
  let ?ex = "replicate (max (515 - 1) 1) None :: expr option list"
  have d: "decode (nvars sc) ?ins
           = Inr \<lparr>no_ops = 515 - 1, no_var = 515, varind = replicate 515 0, expvars = ?ev\<rparr>"
    using assms by (rule decode_nested_difference)
  have l: "length ?ins = 2058"
    by (simp add: nested_difference_length)
  then have sc: "short_circuit ?ins ?ev ?ex = Inr (?ex, 2058)"
    by (simp add: short_circuit_def)
  from nested_difference_runs_into_capacity [of ?ev ?ex]
  obtain s where s: "run ?ev 2058 [0..<1029] (init_state ?ins ?ex) = Inr s"
    and f: "step ?ev 2058 1029 s = Inl (MemoryFault ''savvarlst'' MAX_DEPTH)"
    by blast
  have "[0..<2058] = [0..<1029] @ 1029 # [1030..<2058]"
    using upt_add_eq_append [of 0 1029 1029] upt_conv_Cons [of 1029 2058] by simp
  with s f have "run ?ev 2058 [0..<2058] (init_state ?ins ?ex) = Inl (MemoryFault ''savvarlst'' MAX_DEPTH)"
    by (simp add: run_append)
  with d sc show ?thesis
    by (simp add: addNonlinearCon_def)
qed


text \<open>
  C7 (the code departs from the claim). The difference of 515 variables nested to the
  right, \<open>x0 - (x0 - (...))\<close>, needs 513 saved variables, one more than \<^verbatim>\<open>MAX_DEPTH\<close>. The call
  does not end with the error for the exceeded depth: the guard \<^verbatim>\<open>psavvarlst >= MAX_DEPTH\<close>
  lets the 513th variable through, and it is written to \<^verbatim>\<open>savvarlst[512]\<close>, outside the array.
\<close>

theorem deep_nesting_is_not_reported_as_depth_exceeded:
  "nested_difference 515
     = concat (replicate 515 [real_of_int VAR, 0]) @ concat (replicate 514 [real_of_int SUB, 0])
   \<and> length (nested_difference 515) = 2058
   \<and> addNonlinearCon three_var_problem (nested_difference 515) 0 1 None 0 False
     = Inl (MemoryFault ''savvarlst'' 512)"
proof -
  have "0 < nvars three_var_problem"
    by (simp add: three_var_problem_def)
  from nested_difference_call [OF this, of 0 1 None 0 False]
  have "addNonlinearCon three_var_problem (nested_difference 515) 0 1 None 0 False
     = Inl (MemoryFault ''savvarlst'' 512)"
    by (simp add: MAX_DEPTH_def)
  then show ?thesis
    by (simp add: nested_difference_def nested_difference_length length_concat_pairs)
qed

text \<open>
  C10 (the code departs from the claim). On the same stream the builder reaches, after
  514 variables, a state in which 512 variables are saved: \<^verbatim>\<open>psavvarlst\<close> is 511, so the guard
  \<^verbatim>\<open>psavvarlst >= MAX_DEPTH\<close> does not fire, and the next push writes at the index
  \<^verbatim>\<open>++psavvarlst\<close>, which is 512, the capacity of \<^verbatim>\<open>savvarlst\<close>, not below it. The guard of the
  expression list has the same form (lemma \<open>push_exp_at_capacity\<close>).
\<close>

theorem depth_guard_admits_a_write_at_the_capacity:
  "\<exists>s. run (replicate 515 (ExprVar 0)) 2058 [0..<1029]
          (init_state (nested_difference 515) (replicate 514 None)) = Inr s
       \<and> state s = VAR
       \<and> psavvarlst s < MAX_DEPTH
       \<and> psavvarlst s + 1 = MAX_DEPTH
       \<and> int (length (savvarlst s)) = MAX_DEPTH
       \<and> step (replicate 515 (ExprVar 0)) 2058 1029 s = Inl (MemoryFault ''savvarlst'' 512)"
proof -
  from nested_difference_runs_into_capacity [of "replicate 515 (ExprVar 0)" "replicate 514 None"]
  obtain s where "run (replicate 515 (ExprVar 0)) 2058 [0..<1029]
          (init_state (nested_difference 515) (replicate 514 None)) = Inr s"
    and "state s = VAR"
    and "\<not> MAX_DEPTH \<le> psavvarlst s"
    and "psavvarlst s + 1 = int (length (savvarlst s))"
    and "int (length (savvarlst s)) = MAX_DEPTH"
    and "step (replicate 515 (ExprVar 0)) 2058 1029 s = Inl (MemoryFault ''savvarlst'' MAX_DEPTH)"
    by blast
  then show ?thesis
    by (auto simp: MAX_DEPTH_def)
qed

end
